theory Spec2Isabelle
  imports Main
begin

section \<open>Data model\<close>

text \<open>
  A UUID is represented by its canonical text form, so that \<open>uuid.String()\<close> is the
  identity. Instants of time are integers (nanoseconds on some fixed clock); a
  \<open>time.Duration\<close> is an integer as well. Go's \<open>int64\<close> sizes are modelled as
  unbounded integers: every size handled here is bounded by the upload limit.
\<close>

type_synonym uuid = string
type_synonym instant = int

text \<open>\<open>bucket.UsageStats\<close> and \<open>bucket.Bucket\<close> (bucket/models.go).\<close>

record UsageStats =
  TotalBytes :: int
  FileCount :: int

record Bucket =
  Bucket_ID :: uuid
  OwnerID :: uuid
  Name :: string
  Description :: "string option"
  Bucket_CreatedAt :: instant
  Bucket_UpdatedAt :: instant
  Usage :: UsageStats

text \<open>\<open>bucket.FileObject\<close>: what the bucket service needs to clean objects up.\<close>

record FileObject =
  FO_ObjectName :: string
  FO_SizeBytes :: int

text \<open>\<open>file.Metadata\<close>: one row of the \<open>files\<close> table.\<close>

record Metadata =
  ID :: uuid
  BucketID :: uuid
  ObjectName :: string
  OriginalFilename :: string
  SizeBytes :: int
  ContentType :: string
  Checksum :: string
  CreatedAt :: instant
  UpdatedAt :: instant

text \<open>
  The part of \<open>multipart.FileHeader\<close> that \<open>Upload\<close> reads: the file name, the declared
  size and the value of the part's \<open>Content-Type\<close> header (empty when absent).
\<close>

record FileHeader =
  Filename :: string
  Size :: int
  Header_ContentType :: string

text \<open>\<open>presigned.ScopeToken\<close>.\<close>

record ScopeToken =
  Token_UserID :: string
  Token_Bucket :: string
  Token_Object :: string
  CanRead :: bool
  CanWrite :: bool
  ExpiresAt :: instant

text \<open>
  \<open>presigned.Record\<close> and \<open>presigned.AuditRecord\<close>, with the fields that
  \<open>GenerateURL\<close> fills in.
\<close>

record Record =
  Record_ID :: uuid
  ObjectID :: uuid
  Method :: string
  Expires :: instant

record AuditRecord =
  Audit_ID :: uuid
  Audit_UserID :: uuid
  Audit_BucketID :: uuid
  Audit_FileID :: uuid
  Audit_Method :: string
  Audit_ExpiresAt :: instant
  Audit_CreatedAt :: instant

text \<open>
  Errors. The sentinel errors of the packages are constructors of their own;
  \<open>Backend\<close> is a failure reported by the database driver or the object store client,
  \<open>Errorf\<close> a fresh \<open>fmt.Errorf\<close> error and \<open>Wrap\<close> the \<open>fmt.Errorf("...: %w", err)\<close>
  wrapping of another error.
\<close>

datatype error =
    ErrBucketNotFound
  | ErrBucketNameExists
  | ErrBucketMismatch
  | ErrFileNotFound
  | ErrFileTooLarge
  | ErrInvalidMethod
  | Backend string
  | Errorf string
  | Wrap string error

text \<open>
  Every call that leaves the process is recorded, oldest first, together with the error
  it returned (\<open>None\<close> when it succeeded), so that the order and the outcome of the
  steps of an operation can be stated.
\<close>

datatype call =
    Call_BucketGet uuid uuid
  | Call_BucketDelete uuid uuid
  | Call_UpdateUsage uuid int int
  | Call_RecordUsageSnapshot uuid
  | Call_FileCreate uuid
  | Call_FileDelete uuid uuid uuid
  | Call_ListObjectsForBucket uuid
  | Call_PutObject string string
  | Call_RemoveObject string string
  | Call_PresignedGetObject string string
  | Call_PresignedPutObject string string
  | Call_SaveRecord uuid
  | Call_SaveAudit uuid

text \<open>
  The two backing systems. The relational store holds the tables of
  migrations/0001\_init.up.sql that the core uses, and the issuance and audit rows of the
  presigned-URL service; the object store maps (container, object name) to the size it
  reported for the object.
\<close>

record world =
  buckets :: "Bucket list"
  files :: "Metadata list"
  bucket_usage :: "uuid \<rightharpoonup> UsageStats"
  usage_snapshots :: "(uuid \<times> int \<times> int) list"
  presigned_records :: "Record list"
  presigned_audit :: "AuditRecord list"
  objects :: "(string \<times> string) \<rightharpoonup> int"
  trace :: "(call \<times> error option) list"

definition record_call :: "call \<Rightarrow> error option \<Rightarrow> world \<Rightarrow> world" where
  "record_call c res w = w\<lparr>trace := trace w @ [(c, res)]\<rparr>"

definition calls_since :: "world \<Rightarrow> world \<Rightarrow> (call \<times> error option) list" where
  \<comment> \<open>the calls recorded on the way from \<open>w\<close> to \<open>w'\<close>\<close>
  "calls_since w w' = drop (length (trace w)) (trace w')"

definition outcome_of :: "error + 'a \<Rightarrow> error option" where
  \<comment> \<open>the error a call returned, if any\<close>
  "outcome_of r = (case r of Inl e \<Rightarrow> Some e | Inr _ \<Rightarrow> None)"

section \<open>Bucket repository (bucket/repository.go)\<close>

text \<open>
  Every repository method takes the failure of its statement, if any, as its first
  argument: \<open>Some e\<close> when the driver returns the error \<open>e\<close> (the statement then changes
  nothing), \<open>None\<close> when the statement runs. The foreign keys of the schema need no
  check of their own: each caller resolves the bucket before it writes a row that refers
  to it.
\<close>

definition usage_of :: "world \<Rightarrow> uuid \<Rightarrow> UsageStats" where
  \<comment> \<open>\<open>COALESCE(u.total_bytes, 0), COALESCE(u.file_count, 0)\<close> over the left join\<close>
  "usage_of w bucketID =
     (case bucket_usage w bucketID of
        None \<Rightarrow> \<lparr>TotalBytes = 0, FileCount = 0\<rparr>
      | Some u \<Rightarrow> u)"

definition bucket_Get :: "error option \<Rightarrow> world \<Rightarrow> uuid \<Rightarrow> uuid \<Rightarrow> (error + Bucket) \<times> world" where
  "bucket_Get fault w ownerID bucketID =
     (let c = Call_BucketGet ownerID bucketID in
      case fault of
        Some err \<Rightarrow>
          (Inl (Wrap ''get bucket'' err), record_call c (Some (Wrap ''get bucket'' err)) w)
      | None \<Rightarrow>
          (case find (\<lambda>b. Bucket_ID b = bucketID \<and> OwnerID b = ownerID) (buckets w) of
             None \<Rightarrow> (Inl ErrBucketNotFound, record_call c (Some ErrBucketNotFound) w)
           | Some b \<Rightarrow> (Inr (b\<lparr>Usage := usage_of w bucketID\<rparr>), record_call c None w)))"

definition bucket_Delete :: "error option \<Rightarrow> world \<Rightarrow> uuid \<Rightarrow> uuid \<Rightarrow> error option \<times> world" where
  \<comment> \<open>\<open>DELETE FROM buckets\<close>; the schema cascades to \<open>files\<close> and \<open>bucket_usage\<close>\<close>
  "bucket_Delete fault w ownerID bucketID =
     (let c = Call_BucketDelete ownerID bucketID in
      case fault of
        Some err \<Rightarrow>
          (Some (Wrap ''delete bucket'' err), record_call c (Some (Wrap ''delete bucket'' err)) w)
      | None \<Rightarrow>
          if \<not> list_ex (\<lambda>b. Bucket_ID b = bucketID \<and> OwnerID b = ownerID) (buckets w)
          then (Some ErrBucketNotFound, record_call c (Some ErrBucketNotFound) w)
          else (None,
                record_call c None
                  (w\<lparr>buckets := filter (\<lambda>b. \<not> (Bucket_ID b = bucketID \<and> OwnerID b = ownerID)) (buckets w),
                     files := filter (\<lambda>m. BucketID m \<noteq> bucketID) (files w),
                     bucket_usage := (bucket_usage w)(bucketID := None)\<rparr>)))"

definition UpdateUsage :: "error option \<Rightarrow> world \<Rightarrow> uuid \<Rightarrow> int \<Rightarrow> int \<Rightarrow> error option \<times> world" where
  \<comment> \<open>the upsert: insert the deltas, or add them to the row and floor at zero\<close>
  "UpdateUsage fault w bucketID deltaBytes deltaFiles =
     (let c = Call_UpdateUsage bucketID deltaBytes deltaFiles in
      case fault of
        Some err \<Rightarrow>
          (Some (Wrap ''update usage'' err), record_call c (Some (Wrap ''update usage'' err)) w)
      | None \<Rightarrow>
          (case bucket_usage w bucketID of
             None \<Rightarrow>
               (None, record_call c None
                        (w\<lparr>bucket_usage := (bucket_usage w)(bucketID \<mapsto>
                             \<lparr>TotalBytes = deltaBytes, FileCount = deltaFiles\<rparr>)\<rparr>))
           | Some u \<Rightarrow>
               (None, record_call c None
                        (w\<lparr>bucket_usage := (bucket_usage w)(bucketID \<mapsto>
                             \<lparr>TotalBytes = max (TotalBytes u + deltaBytes) 0,
                              FileCount = max (FileCount u + deltaFiles) 0\<rparr>)\<rparr>))))"

definition RecordUsageSnapshot :: "error option \<Rightarrow> world \<Rightarrow> uuid \<Rightarrow> error option \<times> world" where
  "RecordUsageSnapshot fault w ownerID =
     (let c = Call_RecordUsageSnapshot ownerID in
      case fault of
        Some err \<Rightarrow>
          (Some (Wrap ''record usage snapshot'' err),
           record_call c (Some (Wrap ''record usage snapshot'' err)) w)
      | None \<Rightarrow>
          (let owned = filter (\<lambda>b. OwnerID b = ownerID) (buckets w);
               total_bytes = sum_list (map (\<lambda>b. TotalBytes (usage_of w (Bucket_ID b))) owned);
               file_count = sum_list (map (\<lambda>b. FileCount (usage_of w (Bucket_ID b))) owned)
           in (None, record_call c None
                       (w\<lparr>usage_snapshots :=
                            usage_snapshots w @ [(ownerID, total_bytes, file_count)]\<rparr>))))"

section \<open>File repository (package file, Repository)\<close>

definition file_Create :: "error option \<Rightarrow> instant \<Rightarrow> world \<Rightarrow> Metadata \<Rightarrow> (error + Metadata) \<times> world" where
  \<comment> \<open>\<open>INSERT ... RETURNING\<close>; the primary key and \<open>UNIQUE (bucket_id, object_name)\<close>
      reject a duplicate row; \<open>created_at\<close> and \<open>updated_at\<close> default to \<open>NOW()\<close>\<close>
  "file_Create fault now w meta =
     (let c = Call_FileCreate (ID meta) in
      case fault of
        Some err \<Rightarrow>
          (Inl (Wrap ''create file metadata'' err),
           record_call c (Some (Wrap ''create file metadata'' err)) w)
      | None \<Rightarrow>
          if list_ex (\<lambda>m. ID m = ID meta \<or>
                          (BucketID m = BucketID meta \<and> ObjectName m = ObjectName meta)) (files w)
          then (Inl (Wrap ''create file metadata'' (Backend ''unique violation'')),
                record_call c (Some (Wrap ''create file metadata'' (Backend ''unique violation''))) w)
          else (let stored = meta\<lparr>CreatedAt := now, UpdatedAt := now\<rparr>
                in (Inr stored, record_call c None (w\<lparr>files := files w @ [stored]\<rparr>))))"

definition file_row_matches :: "world \<Rightarrow> uuid \<Rightarrow> uuid \<Rightarrow> uuid \<Rightarrow> Metadata \<Rightarrow> bool" where
  \<comment> \<open>\<open>f.id = $1 AND f.bucket_id = $2 AND b.id = f.bucket_id AND b.owner_id = $3\<close>\<close>
  "file_row_matches w ownerID bucketID fileID m =
     (ID m = fileID \<and> BucketID m = bucketID \<and>
      list_ex (\<lambda>b. Bucket_ID b = BucketID m \<and> OwnerID b = ownerID) (buckets w))"

definition file_Delete :: "error option \<Rightarrow> world \<Rightarrow> uuid \<Rightarrow> uuid \<Rightarrow> uuid \<Rightarrow> (error + Metadata) \<times> world" where
  \<comment> \<open>\<open>DELETE FROM files f USING buckets b ... RETURNING\<close>\<close>
  "file_Delete fault w ownerID bucketID fileID =
     (let c = Call_FileDelete ownerID bucketID fileID in
      case fault of
        Some err \<Rightarrow>
          (Inl (Wrap ''delete file metadata'' err),
           record_call c (Some (Wrap ''delete file metadata'' err)) w)
      | None \<Rightarrow>
          (case find (file_row_matches w ownerID bucketID fileID) (files w) of
             None \<Rightarrow> (Inl ErrFileNotFound, record_call c (Some ErrFileNotFound) w)
           | Some meta \<Rightarrow>
               (Inr meta,
                record_call c None
                  (w\<lparr>files := filter (\<lambda>m. \<not> file_row_matches w ownerID bucketID fileID m)
                                (files w)\<rparr>))))"

definition ListObjectsForBucket :: "error option \<Rightarrow> world \<Rightarrow> uuid \<Rightarrow> (error + FileObject list) \<times> world" where
  "ListObjectsForBucket fault w bucketID =
     (let c = Call_ListObjectsForBucket bucketID in
      case fault of
        Some err \<Rightarrow>
          (Inl (Wrap ''list objects for bucket'' err),
           record_call c (Some (Wrap ''list objects for bucket'' err)) w)
      | None \<Rightarrow>
          (Inr (map (\<lambda>m. \<lparr>FO_ObjectName = ObjectName m, FO_SizeBytes = SizeBytes m\<rparr>)
                  (filter (\<lambda>m. BucketID m = bucketID) (files w))),
           record_call c None w))"

section \<open>Object store adapter\<close>

definition PutObject :: "error + int \<Rightarrow> world \<Rightarrow> string \<Rightarrow> string \<Rightarrow> (error + int) \<times> world" where
  \<comment> \<open>the outcome is the client's error, or the \<open>UploadInfo.Size\<close> it reports\<close>
  "PutObject outcome w bucketName objectName =
     (let c = Call_PutObject bucketName objectName in
      case outcome of
        Inl err \<Rightarrow> (Inl err, record_call c (Some err) w)
      | Inr n \<Rightarrow>
          (Inr n, record_call c None (w\<lparr>objects := (objects w)((bucketName, objectName) \<mapsto> n)\<rparr>)))"

definition RemoveObject :: "error option \<Rightarrow> world \<Rightarrow> string \<Rightarrow> string \<Rightarrow> error option \<times> world" where
  \<comment> \<open>removing an absent object is not an error\<close>
  "RemoveObject fault w bucketName objectName =
     (let c = Call_RemoveObject bucketName objectName in
      case fault of
        Some err \<Rightarrow> (Some err, record_call c (Some err) w)
      | None \<Rightarrow>
          (None, record_call c None (w\<lparr>objects := (objects w)((bucketName, objectName) := None)\<rparr>)))"

section \<open>File service (package file, Service)\<close>

record Service =
  objectBucket :: string
  maxFileSize :: int

definition defaultMaxFileSize :: int where
  "defaultMaxFileSize = 100 * 1024 * 1024"

definition NewService :: "string \<Rightarrow> Service" where
  "NewService bucketName = \<lparr>objectBucket = bucketName, maxFileSize = defaultMaxFileSize\<rparr>"

definition detectContentType :: "FileHeader \<Rightarrow> string" where
  "detectContentType fileHeader =
     (let contentType = Header_ContentType fileHeader in
      if contentType \<noteq> '''' then contentType else ''application/octet-stream'')"

text \<open>
  \<open>strings.TrimSpace\<close> removes the leading and trailing white space of a string, as
  Unicode defines it. A Go string is a sequence of bytes in UTF-8, so the white-space
  code points are modelled by their encodings: the six ASCII ones, U+0085, U+00A0,
  U+1680, U+2000 to U+200A, U+2028, U+2029, U+202F, U+205F and U+3000. A byte that is
  not part of such an encoding stops the trimming, as an invalid or non-space rune does.
\<close>

definition space_runes :: "string list" where
  "space_runes =
     [[CHR 0x09], [CHR 0x0A], [CHR 0x0B], [CHR 0x0C], [CHR 0x0D], [CHR 0x20],
      [CHR 0xC2, CHR 0x85], [CHR 0xC2, CHR 0xA0],
      [CHR 0xE1, CHR 0x9A, CHR 0x80],
      [CHR 0xE2, CHR 0x80, CHR 0x80], [CHR 0xE2, CHR 0x80, CHR 0x81],
      [CHR 0xE2, CHR 0x80, CHR 0x82], [CHR 0xE2, CHR 0x80, CHR 0x83],
      [CHR 0xE2, CHR 0x80, CHR 0x84], [CHR 0xE2, CHR 0x80, CHR 0x85],
      [CHR 0xE2, CHR 0x80, CHR 0x86], [CHR 0xE2, CHR 0x80, CHR 0x87],
      [CHR 0xE2, CHR 0x80, CHR 0x88], [CHR 0xE2, CHR 0x80, CHR 0x89],
      [CHR 0xE2, CHR 0x80, CHR 0x8A],
      [CHR 0xE2, CHR 0x80, CHR 0xA8], [CHR 0xE2, CHR 0x80, CHR 0xA9],
      [CHR 0xE2, CHR 0x80, CHR 0xAF], [CHR 0xE2, CHR 0x81, CHR 0x9F],
      [CHR 0xE3, CHR 0x80, CHR 0x80]]"

definition leading_rune :: "string list \<Rightarrow> string \<Rightarrow> nat" where
  \<comment> \<open>the number of bytes of the rune among \<open>runes\<close> that the string starts with, or 0\<close>
  "leading_rune runes s =
     (case find (\<lambda>r. take (length r) s = r) runes of None \<Rightarrow> 0 | Some r \<Rightarrow> length r)"

fun trim_runes :: "string list \<Rightarrow> string \<Rightarrow> string" where
  "trim_runes runes [] = []"
| "trim_runes runes (c # cs) =
     (case leading_rune runes (c # cs) of
        0 \<Rightarrow> c # cs
      | Suc n \<Rightarrow> trim_runes runes (drop n cs))"

definition TrimSpace :: "string \<Rightarrow> string" where
  \<comment> \<open>from the left, then from the right on the reversed bytes\<close>
  "TrimSpace s =
     rev (trim_runes (map rev space_runes) (rev (trim_runes space_runes s)))"

definition sanitizeFilename :: "string \<Rightarrow> string" where
  "sanitizeFilename name =
     (let name' = TrimSpace name in if name' = '''' then ''upload'' else name')"

definition translateBucketError :: "error \<Rightarrow> error" where
  "translateBucketError err = (if err = ErrBucketNotFound then ErrBucketMismatch else err)"

text \<open>
  What one call of \<open>Upload\<close> meets outside the process: the failure, if any, of each
  external call it may make, the identifier \<open>uuid.New()\<close> returns, the outcome of
  \<open>PutObject\<close>, the SHA-256 digest of the bytes streamed (in hexadecimal) and the
  database's clock.
\<close>

record upload_env =
  ue_bucket_get :: "error option"
  ue_new_uuid :: uuid
  ue_open :: "error option"
  ue_put :: "error + int"
  ue_checksum :: string
  ue_create :: "error option"
  ue_remove :: "error option"
  ue_usage :: "error option"
  ue_snapshot :: "error option"
  ue_now :: instant

definition Upload ::
  "Service \<Rightarrow> upload_env \<Rightarrow> world \<Rightarrow> uuid \<Rightarrow> uuid \<Rightarrow> FileHeader option \<Rightarrow> (error + Metadata) \<times> world" where
  "Upload s env w ownerID bucketID fileHeader =
     (case fileHeader of
        None \<Rightarrow> (Inl (Errorf ''missing file payload''), w)
      | Some fh \<Rightarrow>
     (case bucket_Get (ue_bucket_get env) w ownerID bucketID of
        (Inl err, w1) \<Rightarrow> (Inl (translateBucketError err), w1)
      | (Inr _, w1) \<Rightarrow>
     (let size = Size fh in
      if size > maxFileSize s then (Inl ErrFileTooLarge, w1)
      else
     (let fileID = ue_new_uuid env;
          objectName = bucketID @ ''/'' @ fileID in
      case ue_open env of
        Some err \<Rightarrow> (Inl (Wrap ''open upload file'' err), w1)
      | None \<Rightarrow>
     (let putOpts_ContentType = detectContentType fh in
      case PutObject (ue_put env) w1 (objectBucket s) objectName of
        (Inl err, w2) \<Rightarrow> (Inl (Wrap ''store object'' err), w2)
      | (Inr uploadInfo_Size, w2) \<Rightarrow>
     (let actualSize = (if uploadInfo_Size \<le> 0 then size else uploadInfo_Size) in
      if maxFileSize s > 0 \<and> actualSize > maxFileSize s
      then (Inl ErrFileTooLarge,
            snd (RemoveObject (ue_remove env) w2 (objectBucket s) objectName))
      else
     (let checksum = ue_checksum env;
          meta = \<lparr>ID = fileID, BucketID = bucketID, ObjectName = objectName,
                  OriginalFilename = sanitizeFilename (Filename fh),
                  SizeBytes = actualSize, ContentType = putOpts_ContentType,
                  Checksum = checksum, CreatedAt = 0, UpdatedAt = 0\<rparr> in
      case file_Create (ue_create env) (ue_now env) w2 meta of
        (Inl err, w3) \<Rightarrow>
          (Inl err, snd (RemoveObject (ue_remove env) w3 (objectBucket s) objectName))
      | (Inr stored, w3) \<Rightarrow>
     (case UpdateUsage (ue_usage env) w3 bucketID (SizeBytes stored) 1 of
        (Some err, w4) \<Rightarrow> (Inl err, w4)
      | (None, w4) \<Rightarrow>
          (Inr stored, snd (RecordUsageSnapshot (ue_snapshot env) w4 ownerID))))))))))"

record delete_env =
  de_delete :: "error option"
  de_remove :: "error option"
  de_usage :: "error option"
  de_snapshot :: "error option"

definition Delete ::
  "Service \<Rightarrow> delete_env \<Rightarrow> world \<Rightarrow> uuid \<Rightarrow> uuid \<Rightarrow> uuid \<Rightarrow> error option \<times> world" where
  "Delete s env w ownerID bucketID fileID =
     (case file_Delete (de_delete env) w ownerID bucketID fileID of
        (Inl err, w1) \<Rightarrow> (Some err, w1)
      | (Inr meta, w1) \<Rightarrow>
     (case RemoveObject (de_remove env) w1 (objectBucket s) (ObjectName meta) of
        (Some err, w2) \<Rightarrow> (Some (Wrap ''remove object'' err), w2)
      | (None, w2) \<Rightarrow>
     (case UpdateUsage (de_usage env) w2 bucketID (- SizeBytes meta) (- 1) of
        (Some err, w3) \<Rightarrow> (Some err, w3)
      | (None, w3) \<Rightarrow>
          (None, snd (RecordUsageSnapshot (de_snapshot env) w3 ownerID)))))"

section \<open>Bucket service (bucket/models.go, Service)\<close>

text \<open>
  The service holds a client of the object store and a file index, either of which may
  be nil (the unit tests pass a nil client), and the name of the container.
\<close>

record BucketService =
  bs_objectStore_nil :: bool
  bs_files_nil :: bool
  bs_objectBucket :: string

text \<open>
  What one call of \<open>DeleteBucket\<close> meets outside the process. The failure of a removal
  is given per object name: the names of one bucket's rows are distinct
  (\<open>UNIQUE (bucket_id, object_name)\<close>).
\<close>

record delete_bucket_env =
  dbe_get :: "error option"
  dbe_list :: "error option"
  dbe_remove :: "string \<Rightarrow> error option"
  dbe_delete :: "error option"
  dbe_snapshot :: "error option"

fun removeObjects ::
  "(string \<Rightarrow> error option) \<Rightarrow> string \<Rightarrow> world \<Rightarrow> FileObject list \<Rightarrow> error option \<times> world" where
  \<comment> \<open>the \<open>for _, obj := range objects\<close> loop of \<open>deleteObjects\<close>\<close>
  "removeObjects rm bucketName w [] = (None, w)"
| "removeObjects rm bucketName w (obj # rest) =
     (case RemoveObject (rm (FO_ObjectName obj)) w bucketName (FO_ObjectName obj) of
        (Some err, w1) \<Rightarrow> (Some (Wrap (''remove object '' @ FO_ObjectName obj) err), w1)
      | (None, w1) \<Rightarrow> removeObjects rm bucketName w1 rest)"

definition deleteObjects ::
  "BucketService \<Rightarrow> delete_bucket_env \<Rightarrow> world \<Rightarrow> uuid \<Rightarrow> error option \<times> world" where
  "deleteObjects s env w bucketID =
     (if bs_objectStore_nil s \<or> bs_files_nil s then (None, w)
      else
     (case ListObjectsForBucket (dbe_list env) w bucketID of
        (Inl err, w1) \<Rightarrow> (Some (Wrap ''list bucket objects'' err), w1)
      | (Inr objs, w1) \<Rightarrow> removeObjects (dbe_remove env) (bs_objectBucket s) w1 objs))"

definition DeleteBucket ::
  "BucketService \<Rightarrow> delete_bucket_env \<Rightarrow> world \<Rightarrow> uuid \<Rightarrow> uuid \<Rightarrow> error option \<times> world" where
  "DeleteBucket s env w ownerID bucketID =
     (case bucket_Get (dbe_get env) w ownerID bucketID of
        (Inl err, w1) \<Rightarrow> (Some err, w1)
      | (Inr _, w1) \<Rightarrow>
     (case deleteObjects s env w1 bucketID of
        (Some err, w2) \<Rightarrow> (Some err, w2)
      | (None, w2) \<Rightarrow>
     (case bucket_Delete (dbe_delete env) w2 ownerID bucketID of
        (Some err, w3) \<Rightarrow> (Some err, w3)
      | (None, w3) \<Rightarrow>
     (case RecordUsageSnapshot (dbe_snapshot env) w3 ownerID of
        (Some err, w4) \<Rightarrow> (Some err, w4)
      | (None, w4) \<Rightarrow> (None, w4)))))"

section \<open>Presigned-URL service (package presigned)\<close>

text \<open>
  The package declares two services: one with a repository, whose \<open>GenerateURL\<close>
  persists an issuance record and an audit record, and one without, whose
  \<open>GeneratePresignedWithAccessCheck\<close> the HTTP handler calls. Both hold the time to
  live of the URLs they mint.
\<close>

record PresignedService =
  ttl :: int

text \<open>
  What one presigning call meets outside the process: the outcome of the object store
  client's presigning call (an error or the URL), the identifiers \<open>uuid.New()\<close> returns
  for the two records, the two readings of the clock, and the failures of the two
  repository writes.
\<close>

record presign_env =
  pe_presign :: "error + string"
  pe_record_id :: uuid
  pe_audit_id :: uuid
  pe_now :: instant
  pe_now_audit :: instant
  pe_save_record :: "error option"
  pe_save_audit :: "error option"

definition PresignedGetObject :: "error + string \<Rightarrow> world \<Rightarrow> string \<Rightarrow> string \<Rightarrow> (error + string) \<times> world" where
  "PresignedGetObject outcome w bucketName objectName =
     (outcome, record_call (Call_PresignedGetObject bucketName objectName)
                 (case outcome of Inl err \<Rightarrow> Some err | Inr _ \<Rightarrow> None) w)"

definition PresignedPutObject :: "error + string \<Rightarrow> world \<Rightarrow> string \<Rightarrow> string \<Rightarrow> (error + string) \<times> world" where
  "PresignedPutObject outcome w bucketName objectName =
     (outcome, record_call (Call_PresignedPutObject bucketName objectName)
                 (case outcome of Inl err \<Rightarrow> Some err | Inr _ \<Rightarrow> None) w)"

text \<open>
  Modelled from the spec: \<open>Repository.SaveRecord\<close> of package presigned is not among the
  sources. The issuance records are append-only: the write adds one row, or fails and
  changes nothing.
\<close>

definition SaveRecord :: "error option \<Rightarrow> world \<Rightarrow> Record \<Rightarrow> error option \<times> world" where
  "SaveRecord fault w rec =
     (let c = Call_SaveRecord (Record_ID rec) in
      case fault of
        Some err \<Rightarrow> (Some err, record_call c (Some err) w)
      | None \<Rightarrow> (None, record_call c None (w\<lparr>presigned_records := presigned_records w @ [rec]\<rparr>)))"

text \<open>
  Modelled from the spec: \<open>Repository.SaveAudit\<close> of package presigned is not among the
  sources. The audit records are append-only: the write adds one row, or fails and
  changes nothing.
\<close>

definition SaveAudit :: "error option \<Rightarrow> world \<Rightarrow> AuditRecord \<Rightarrow> error option \<times> world" where
  "SaveAudit fault w audit =
     (let c = Call_SaveAudit (Audit_ID audit) in
      case fault of
        Some err \<Rightarrow> (Some err, record_call c (Some err) w)
      | None \<Rightarrow> (None, record_call c None (w\<lparr>presigned_audit := presigned_audit w @ [audit]\<rparr>)))"

definition GenerateURL ::
  "PresignedService \<Rightarrow> presign_env \<Rightarrow> world \<Rightarrow> string \<Rightarrow> string \<Rightarrow> string \<Rightarrow> uuid \<Rightarrow> uuid \<Rightarrow> uuid
     \<Rightarrow> (error + string \<times> Record \<times> AuditRecord) \<times> world" where
  "GenerateURL s env w bucketName objectName method userID bucketID fileID =
     (if method \<noteq> ''GET'' \<and> method \<noteq> ''PUT'' then (Inl ErrInvalidMethod, w)
      else
     (let expiry = ttl s in
      case (if method = ''GET''
            then PresignedGetObject (pe_presign env) w bucketName objectName
            else PresignedPutObject (pe_presign env) w bucketName objectName) of
        (Inl err, w1) \<Rightarrow> (Inl err, w1)
      | (Inr urlStr, w1) \<Rightarrow>
     (let rec = \<lparr>Record_ID = pe_record_id env, ObjectID = fileID, Method = method,
                 Expires = pe_now env + expiry\<rparr> in
      case SaveRecord (pe_save_record env) w1 rec of
        (Some saveErr, w2) \<Rightarrow> (Inl saveErr, w2)
      | (None, w2) \<Rightarrow>
     (let audit = \<lparr>Audit_ID = pe_audit_id env, Audit_UserID = userID,
                   Audit_BucketID = bucketID, Audit_FileID = fileID, Audit_Method = method,
                   Audit_ExpiresAt = Expires rec, Audit_CreatedAt = pe_now_audit env\<rparr> in
      case SaveAudit (pe_save_audit env) w2 audit of
        (Some auditErr, w3) \<Rightarrow> (Inl auditErr, w3)
      | (None, w3) \<Rightarrow> (Inr (urlStr, rec, audit), w3)))))"

definition ValidateOwnership :: "string \<Rightarrow> string \<Rightarrow> bool" where
  "ValidateOwnership userID ownerID = (userID = ownerID)"

definition ValidateScope :: "instant \<Rightarrow> ScopeToken \<Rightarrow> string \<Rightarrow> string \<Rightarrow> bool \<Rightarrow> bool" where
  \<comment> \<open>the first argument is the reading of \<open>time.Now()\<close>\<close>
  "ValidateScope now token bucket object write =
     (if now > ExpiresAt token then False
      else if Token_Bucket token \<noteq> bucket then False
      else if Token_Object token \<noteq> object then False
      else if write \<and> \<not> CanWrite token then False
      else if \<not> write \<and> \<not> CanRead token then False
      else True)"

definition GenerateGetURL :: "presign_env \<Rightarrow> world \<Rightarrow> string \<Rightarrow> string \<Rightarrow> (error + string) \<times> world" where
  "GenerateGetURL env w bucket object = PresignedGetObject (pe_presign env) w bucket object"

definition GeneratePutURL :: "presign_env \<Rightarrow> world \<Rightarrow> string \<Rightarrow> string \<Rightarrow> (error + string) \<times> world" where
  "GeneratePutURL env w bucket object = PresignedPutObject (pe_presign env) w bucket object"

definition GeneratePresignedWithAccessCheck ::
  "presign_env \<Rightarrow> world \<Rightarrow> string \<Rightarrow> string \<Rightarrow> string \<Rightarrow> string \<Rightarrow> ScopeToken option \<Rightarrow> bool
     \<Rightarrow> (error + string) \<times> world" where
  "GeneratePresignedWithAccessCheck env w bucket object userID ownerID scope write =
     (if (case scope of None \<Rightarrow> False
          | Some token \<Rightarrow> \<not> ValidateScope (pe_now env) token bucket object write)
      then (Inl (Errorf ''access denied: invalid scope token''), w)
      else if \<not> ValidateOwnership userID ownerID
      then (Inl (Errorf ''access denied: not the owner''), w)
      else if write then GeneratePutURL env w bucket object
      else GenerateGetURL env w bucket object)"

section \<open>Presigned-URL handler (presigned/handler.go)\<close>

fun error_string :: "error \<Rightarrow> string" where
  \<comment> \<open>\<open>err.Error()\<close>\<close>
  "error_string ErrBucketNotFound = ''bucket not found''"
| "error_string ErrBucketNameExists = ''bucket name already exists''"
| "error_string ErrBucketMismatch = ''bucket mismatch''"
| "error_string ErrFileNotFound = ''file not found''"
| "error_string ErrFileTooLarge = ''file too large''"
| "error_string ErrInvalidMethod = ''invalid method: must be GET or PUT''"
| "error_string (Backend msg) = msg"
| "error_string (Errorf msg) = msg"
| "error_string (Wrap msg err) = msg @ '': '' @ error_string err"

text \<open>
  The request as the handler reads it: the two path parameters after \<open>uuid.Parse\<close>
  (\<open>None\<close> when it fails), the value of \<open>c.GetString("userID")\<close>, the \<open>method\<close>
  query parameter (\<open>None\<close> when absent) and the \<open>ttl\<close> query parameter (\<open>None\<close>
  when empty, \<open>Some None\<close> when \<open>time.ParseDuration\<close> fails). No code of the
  repository sets the key \<open>userID\<close> (the authentication middleware stores a struct under
  \<open>godriveUser\<close>), so the value the handler reads is the empty string.
\<close>

record presign_request =
  req_bucketID :: "uuid option"
  req_fileID :: "uuid option"
  req_userID :: string
  req_method :: "string option"
  req_ttl :: "int option option"

datatype body = ErrorBody string | UrlBody string string instant

type_synonym response = "int \<times> body"

text \<open>
  Modelled from the spec: the implementations of \<open>BucketRepository.GetBucketByID\<close> and
  \<open>FileRepository.GetFileByID\<close> are not among the sources. They resolve the raw record by
  id, with no ownership filter; the argument gives the failure of the query, if any.
\<close>

definition GetBucketByID :: "error option \<Rightarrow> world \<Rightarrow> uuid \<Rightarrow> error + Bucket" where
  "GetBucketByID fault w bucketID =
     (case fault of
        Some err \<Rightarrow> Inl err
      | None \<Rightarrow>
          (case find (\<lambda>b. Bucket_ID b = bucketID) (buckets w) of
             None \<Rightarrow> Inl ErrBucketNotFound
           | Some b \<Rightarrow> Inr b))"

definition GetFileByID :: "error option \<Rightarrow> world \<Rightarrow> uuid \<Rightarrow> error + Metadata" where
  "GetFileByID fault w fileID =
     (case fault of
        Some err \<Rightarrow> Inl err
      | None \<Rightarrow>
          (case find (\<lambda>m. ID m = fileID) (files w) of
             None \<Rightarrow> Inl ErrFileNotFound
           | Some m \<Rightarrow> Inr m))"

record handler_env =
  he_bucket :: "error option"
  he_file :: "error option"
  he_presign :: presign_env
  he_now :: instant

definition GeneratePresignedURL ::
  "PresignedService \<Rightarrow> handler_env \<Rightarrow> world \<Rightarrow> presign_request \<Rightarrow> response \<times> world" where
  "GeneratePresignedURL s env w req =
     (let userID = req_userID req;
          method = (case req_method req of None \<Rightarrow> ''GET'' | Some m \<Rightarrow> m) in
      case (case req_ttl req of None \<Rightarrow> Some (ttl s) | Some parsed \<Rightarrow> parsed) of
        None \<Rightarrow> ((400, ErrorBody ''invalid ttl''), w)
      | Some ttl' \<Rightarrow>
     (case req_bucketID req of
        None \<Rightarrow> ((400, ErrorBody ''invalid bucketID''), w)
      | Some bucketUUID \<Rightarrow>
     (case req_fileID req of
        None \<Rightarrow> ((400, ErrorBody ''invalid fileID''), w)
      | Some fileUUID \<Rightarrow>
     (case GetBucketByID (he_bucket env) w bucketUUID of
        Inl _ \<Rightarrow> ((404, ErrorBody ''bucket not found''), w)
      | Inr bucket \<Rightarrow>
     (case GetFileByID (he_file env) w fileUUID of
        Inl _ \<Rightarrow> ((404, ErrorBody ''file not found''), w)
      | Inr file \<Rightarrow>
     (if OwnerID bucket \<noteq> userID then ((403, ErrorBody ''no access to bucket''), w)
      else if BucketID file \<noteq> Bucket_ID bucket
      then ((400, ErrorBody ''file does not belong to this bucket''), w)
      else
     (let isPut = (method = ''PUT'') in
      case GeneratePresignedWithAccessCheck (he_presign env) w (Name bucket) (ObjectName file)
             userID (OwnerID bucket) None isPut of
        (Inl err, w1) \<Rightarrow> ((403, ErrorBody (error_string err)), w1)
      | (Inr url, w1) \<Rightarrow> ((200, UrlBody url method (he_now env + ttl')), w1))))))))"

section \<open>Usage accounting over sequences of operations\<close>

definition bucket_files :: "world \<Rightarrow> uuid \<Rightarrow> Metadata list" where
  \<comment> \<open>the live file-metadata rows of a bucket\<close>
  "bucket_files w bucketID = filter (\<lambda>m. BucketID m = bucketID) (files w)"

definition usage_consistent :: "world \<Rightarrow> uuid \<Rightarrow> bool" where
  "usage_consistent w bucketID =
     (TotalBytes (usage_of w bucketID) = sum_list (map SizeBytes (bucket_files w bucketID)) \<and>
      FileCount (usage_of w bucketID) = int (length (bucket_files w bucketID)))"

definition rows_wellformed :: "world \<Rightarrow> bool" where
  \<comment> \<open>\<open>id\<close> is the primary key of \<open>files\<close>, and no stored size is negative\<close>
  "rows_wellformed w =
     (distinct (map ID (files w)) \<and> list_all (\<lambda>m. 0 \<le> SizeBytes m) (files w))"

datatype op =
    Op_Upload upload_env uuid uuid "FileHeader option"
  | Op_Delete delete_env uuid uuid uuid

fun apply_op :: "Service \<Rightarrow> world \<Rightarrow> op \<Rightarrow> world" where
  "apply_op s w (Op_Upload env ownerID bucketID fileHeader) =
     snd (Upload s env w ownerID bucketID fileHeader)"
| "apply_op s w (Op_Delete env ownerID bucketID fileID) =
     snd (Delete s env w ownerID bucketID fileID)"

definition run_ops :: "Service \<Rightarrow> world \<Rightarrow> op list \<Rightarrow> world" where
  "run_ops s w ops = foldl (apply_op s) w ops"

fun no_late_failure :: "op \<Rightarrow> bool" where
  \<comment> \<open>no step that follows the metadata mutation fails, and the declared size of an
      upload is not negative (\<open>multipart.FileHeader.Size\<close> never is)\<close>
  "no_late_failure (Op_Upload env ownerID bucketID fileHeader) =
     (ue_usage env = None \<and> (case fileHeader of None \<Rightarrow> True | Some fh \<Rightarrow> 0 \<le> Size fh))"
| "no_late_failure (Op_Delete env ownerID bucketID fileID) =
     (de_remove env = None \<and> de_usage env = None)"

section \<open>Concrete inputs\<close>

definition ex_service :: Service where
  "ex_service = NewService ''godrive''"

definition ex_bucket :: Bucket where
  "ex_bucket = \<lparr>Bucket_ID = ''b1'', OwnerID = ''u1'', Name = ''docs'', Description = None,
                Bucket_CreatedAt = 0, Bucket_UpdatedAt = 0,
                Usage = \<lparr>TotalBytes = 0, FileCount = 0\<rparr>\<rparr>"

definition ex_world :: world where
  \<comment> \<open>user u1 has just created the bucket docs\<close>
  "ex_world = \<lparr>buckets = [ex_bucket], files = [],
               bucket_usage = [''b1'' \<mapsto> \<lparr>TotalBytes = 0, FileCount = 0\<rparr>],
               usage_snapshots = [], presigned_records = [], presigned_audit = [],
               objects = Map.empty, trace = []\<rparr>"

definition ex_header :: FileHeader where
  \<comment> \<open>the 11 bytes "hello world" as notes.txt\<close>
  "ex_header = \<lparr>Filename = ''notes.txt'', Size = 11, Header_ContentType = ''text/plain''\<rparr>"

definition ex_upload_env :: upload_env where
  \<comment> \<open>every external call succeeds and the store reports 11 bytes\<close>
  "ex_upload_env = \<lparr>ue_bucket_get = None, ue_new_uuid = ''f1'', ue_open = None,
                    ue_put = Inr 11, ue_checksum = ''b94d27b9'', ue_create = None,
                    ue_remove = None, ue_usage = None, ue_snapshot = None, ue_now = 5\<rparr>"

definition ex_meta :: Metadata where
  "ex_meta = \<lparr>ID = ''f1'', BucketID = ''b1'', ObjectName = ''b1/f1'',
              OriginalFilename = ''notes.txt'', SizeBytes = 11, ContentType = ''text/plain'',
              Checksum = ''b94d27b9'', CreatedAt = 5, UpdatedAt = 5\<rparr>"

definition ex_world_one_file :: world where
  \<comment> \<open>the bucket docs holds the one file f1 of 11 bytes\<close>
  "ex_world_one_file =
     \<lparr>buckets = [ex_bucket], files = [ex_meta],
      bucket_usage = [''b1'' \<mapsto> \<lparr>TotalBytes = 11, FileCount = 1\<rparr>],
      usage_snapshots = [(''u1'', 11, 1)], presigned_records = [], presigned_audit = [],
      objects = [(''godrive'', ''b1/f1'') \<mapsto> 11], trace = []\<rparr>"

definition ex_delete_env :: delete_env where
  "ex_delete_env = \<lparr>de_delete = None, de_remove = None, de_usage = None, de_snapshot = None\<rparr>"

definition ex_upload_env_zero_reported :: upload_env where
  \<comment> \<open>the store reports no size for the object\<close>
  "ex_upload_env_zero_reported = ex_upload_env\<lparr>ue_put := Inr 0\<rparr>"

definition ex_upload_env_create_fails :: upload_env where
  \<comment> \<open>the insert of the metadata row fails, and so does the removal that follows\<close>
  "ex_upload_env_create_fails =
     ex_upload_env\<lparr>ue_create := Some (Backend ''connection reset''),
                   ue_remove := Some (Backend ''timeout'')\<rparr>"

definition ex_upload_env_oversized :: upload_env where
  \<comment> \<open>the store reports one byte more than 100 MiB, and the removal that follows fails\<close>
  "ex_upload_env_oversized =
     ex_upload_env\<lparr>ue_put := Inr 104857601, ue_remove := Some (Backend ''timeout'')\<rparr>"

definition ex_upload_env_oversized_removed :: upload_env where
  \<comment> \<open>the store reports one byte more than 100 MiB, and the removal succeeds\<close>
  "ex_upload_env_oversized_removed = ex_upload_env\<lparr>ue_put := Inr 104857601\<rparr>"

definition ex_header_declared_large :: FileHeader where
  "ex_header_declared_large = ex_header\<lparr>Size := 104857601\<rparr>"

definition ex_upload_env_usage_fails :: upload_env where
  "ex_upload_env_usage_fails = ex_upload_env\<lparr>ue_usage := Some (Backend ''timeout'')\<rparr>"

definition ex_upload_env_snapshot_fails :: upload_env where
  "ex_upload_env_snapshot_fails = ex_upload_env\<lparr>ue_snapshot := Some (Backend ''timeout'')\<rparr>"

definition ex_delete_env_remove_fails :: delete_env where
  \<comment> \<open>the object store refuses the removal\<close>
  "ex_delete_env_remove_fails = ex_delete_env\<lparr>de_remove := Some (Backend ''timeout'')\<rparr>"

definition ex_ops :: "op list" where
  \<comment> \<open>upload notes.txt, then delete it\<close>
  "ex_ops = [Op_Upload ex_upload_env ''u1'' ''b1'' (Some ex_header),
             Op_Delete ex_delete_env ''u1'' ''b1'' ''f1'']"

definition ex_meta2 :: Metadata where
  "ex_meta2 = \<lparr>ID = ''f2'', BucketID = ''b1'', ObjectName = ''b1/f2'',
               OriginalFilename = ''todo.txt'', SizeBytes = 5, ContentType = ''text/plain'',
               Checksum = ''0a4d55a8'', CreatedAt = 6, UpdatedAt = 6\<rparr>"

definition ex_world_two_files :: world where
  \<comment> \<open>the bucket docs holds the files f1 and f2\<close>
  "ex_world_two_files =
     \<lparr>buckets = [ex_bucket], files = [ex_meta, ex_meta2],
      bucket_usage = [''b1'' \<mapsto> \<lparr>TotalBytes = 16, FileCount = 2\<rparr>],
      usage_snapshots = [], presigned_records = [], presigned_audit = [],
      objects = [(''godrive'', ''b1/f1'') \<mapsto> 11, (''godrive'', ''b1/f2'') \<mapsto> 5],
      trace = []\<rparr>"

definition ex_bucket_service :: BucketService where
  "ex_bucket_service =
     \<lparr>bs_objectStore_nil = False, bs_files_nil = False, bs_objectBucket = ''godrive''\<rparr>"

definition ex_delete_bucket_env :: delete_bucket_env where
  \<comment> \<open>the object store removes b1/f1 and refuses to remove b1/f2\<close>
  "ex_delete_bucket_env =
     \<lparr>dbe_get = None, dbe_list = None,
      dbe_remove = (\<lambda>name. if name = ''b1/f2'' then Some (Backend ''timeout'') else None),
      dbe_delete = None, dbe_snapshot = None\<rparr>"

definition ex_presigned_service :: PresignedService where
  \<comment> \<open>URLs live for 900 units of time\<close>
  "ex_presigned_service = \<lparr>ttl = 900\<rparr>"

definition ex_presign_env :: presign_env where
  \<comment> \<open>the object store mints a URL and both repository writes succeed; the clock reads 50\<close>
  "ex_presign_env =
     \<lparr>pe_presign = Inr ''https://minio.local/docs/b1/f1?X-Amz-Signature=4f1c'',
      pe_record_id = ''r1'', pe_audit_id = ''a1'', pe_now = 50, pe_now_audit = 51,
      pe_save_record = None, pe_save_audit = None\<rparr>"

definition ex_presign_env_late :: presign_env where
  \<comment> \<open>the same, with the clock reading 101\<close>
  "ex_presign_env_late = ex_presign_env\<lparr>pe_now := 101\<rparr>"

definition ex_presign_env_record_fails :: presign_env where
  \<comment> \<open>the write of the issuance record fails\<close>
  "ex_presign_env_record_fails = ex_presign_env\<lparr>pe_save_record := Some (Backend ''timeout'')\<rparr>"

definition ex_presign_env_audit_fails :: presign_env where
  \<comment> \<open>the write of the audit record fails\<close>
  "ex_presign_env_audit_fails = ex_presign_env\<lparr>pe_save_audit := Some (Backend ''timeout'')\<rparr>"

definition ex_record :: Record where
  "ex_record = \<lparr>Record_ID = ''r1'', ObjectID = ''f1'', Method = ''GET'', Expires = 950\<rparr>"

definition ex_audit :: AuditRecord where
  "ex_audit = \<lparr>Audit_ID = ''a1'', Audit_UserID = ''u1'', Audit_BucketID = ''b1'',
                Audit_FileID = ''f1'', Audit_Method = ''GET'', Audit_ExpiresAt = 950,
                Audit_CreatedAt = 51\<rparr>"

definition ex_token :: ScopeToken where
  \<comment> \<open>a read-only token for the object of f1 in the bucket docs, good until 100\<close>
  "ex_token = \<lparr>Token_UserID = ''u1'', Token_Bucket = ''docs'', Token_Object = ''b1/f1'',
               CanRead = True, CanWrite = False, ExpiresAt = 100\<rparr>"

definition ex_handler_env :: handler_env where
  "ex_handler_env =
     \<lparr>he_bucket = None, he_file = None, he_presign = ex_presign_env, he_now = 50\<rparr>"

definition ex_request_get :: presign_request where
  \<comment> \<open>a request for a URL for f1 of bucket b1, with no \<open>method\<close> and no \<open>ttl\<close>; the
      key \<open>userID\<close> is unset\<close>
  "ex_request_get =
     \<lparr>req_bucketID = Some ''b1'', req_fileID = Some ''f1'', req_userID = '''',
      req_method = None, req_ttl = None\<rparr>"

definition ex_request_delete :: presign_request where
  \<comment> \<open>the same request with \<open>method=DELETE\<close>\<close>
  "ex_request_delete = ex_request_get\<lparr>req_method := Some ''DELETE''\<rparr>"

section \<open>Effect of each external call on the two stores\<close>

lemma record_call_simps [simp]:
  "buckets (record_call c r w) = buckets w"
  "files (record_call c r w) = files w"
  "bucket_usage (record_call c r w) = bucket_usage w"
  "usage_snapshots (record_call c r w) = usage_snapshots w"
  "presigned_records (record_call c r w) = presigned_records w"
  "presigned_audit (record_call c r w) = presigned_audit w"
  "objects (record_call c r w) = objects w"
  "trace (record_call c r w) = trace w @ [(c, r)]"
  by (simp_all add: record_call_def)

lemma outcome_of_simps [simp]: "outcome_of (Inl e) = Some e" "outcome_of (Inr x) = None"
  by (simp_all add: outcome_of_def)

lemma bucket_Get_frame [simp]:
  "buckets (snd (bucket_Get f w ownerID b)) = buckets w"
  "files (snd (bucket_Get f w ownerID b)) = files w"
  "bucket_usage (snd (bucket_Get f w ownerID b)) = bucket_usage w"
  "usage_snapshots (snd (bucket_Get f w ownerID b)) = usage_snapshots w"
  "presigned_records (snd (bucket_Get f w ownerID b)) = presigned_records w"
  "presigned_audit (snd (bucket_Get f w ownerID b)) = presigned_audit w"
  "objects (snd (bucket_Get f w ownerID b)) = objects w"
  "trace (snd (bucket_Get f w ownerID b)) =
     trace w @ [(Call_BucketGet ownerID b, outcome_of (fst (bucket_Get f w ownerID b)))]"
  by (simp_all add: bucket_Get_def Let_def split: option.splits)

lemma PutObject_frame [simp]:
  "fst (PutObject oc w b n) = oc"
  "buckets (snd (PutObject oc w b n)) = buckets w"
  "files (snd (PutObject oc w b n)) = files w"
  "bucket_usage (snd (PutObject oc w b n)) = bucket_usage w"
  "usage_snapshots (snd (PutObject oc w b n)) = usage_snapshots w"
  "presigned_records (snd (PutObject oc w b n)) = presigned_records w"
  "presigned_audit (snd (PutObject oc w b n)) = presigned_audit w"
  "objects (snd (PutObject oc w b n)) =
     (case oc of Inl _ \<Rightarrow> objects w | Inr k \<Rightarrow> (objects w)((b, n) \<mapsto> k))"
  "trace (snd (PutObject oc w b n)) = trace w @ [(Call_PutObject b n, outcome_of oc)]"
  by (simp_all add: PutObject_def Let_def split: sum.splits)

lemma RemoveObject_frame [simp]:
  "fst (RemoveObject f w b n) = f"
  "buckets (snd (RemoveObject f w b n)) = buckets w"
  "files (snd (RemoveObject f w b n)) = files w"
  "bucket_usage (snd (RemoveObject f w b n)) = bucket_usage w"
  "usage_snapshots (snd (RemoveObject f w b n)) = usage_snapshots w"
  "presigned_records (snd (RemoveObject f w b n)) = presigned_records w"
  "presigned_audit (snd (RemoveObject f w b n)) = presigned_audit w"
  "objects (snd (RemoveObject f w b n)) =
     (case f of Some _ \<Rightarrow> objects w | None \<Rightarrow> (objects w)((b, n) := None))"
  "trace (snd (RemoveObject f w b n)) = trace w @ [(Call_RemoveObject b n, f)]"
  by (simp_all add: RemoveObject_def Let_def split: option.splits)

lemma file_Create_frame [simp]:
  "buckets (snd (file_Create f now w m)) = buckets w"
  "files (snd (file_Create f now w m)) =
     (case fst (file_Create f now w m) of Inl _ \<Rightarrow> files w | Inr st \<Rightarrow> files w @ [st])"
  "bucket_usage (snd (file_Create f now w m)) = bucket_usage w"
  "usage_snapshots (snd (file_Create f now w m)) = usage_snapshots w"
  "presigned_records (snd (file_Create f now w m)) = presigned_records w"
  "presigned_audit (snd (file_Create f now w m)) = presigned_audit w"
  "objects (snd (file_Create f now w m)) = objects w"
  "trace (snd (file_Create f now w m)) =
     trace w @ [(Call_FileCreate (ID m), outcome_of (fst (file_Create f now w m)))]"
  by (simp_all add: file_Create_def Let_def split: option.splits)

lemma file_Create_fst:
  "fst (file_Create f now w m) =
     (case f of
        Some err \<Rightarrow> Inl (Wrap ''create file metadata'' err)
      | None \<Rightarrow>
          if list_ex (\<lambda>x. ID x = ID m \<or> (BucketID x = BucketID m \<and> ObjectName x = ObjectName m))
               (files w)
          then Inl (Wrap ''create file metadata'' (Backend ''unique violation''))
          else Inr (m\<lparr>CreatedAt := now, UpdatedAt := now\<rparr>))"
  by (simp add: file_Create_def Let_def split: option.splits)

lemma UpdateUsage_frame [simp]:
  "fst (UpdateUsage f w b db df) = map_option (Wrap ''update usage'') f"
  "buckets (snd (UpdateUsage f w b db df)) = buckets w"
  "files (snd (UpdateUsage f w b db df)) = files w"
  "usage_snapshots (snd (UpdateUsage f w b db df)) = usage_snapshots w"
  "presigned_records (snd (UpdateUsage f w b db df)) = presigned_records w"
  "presigned_audit (snd (UpdateUsage f w b db df)) = presigned_audit w"
  "objects (snd (UpdateUsage f w b db df)) = objects w"
  "trace (snd (UpdateUsage f w b db df)) =
     trace w @ [(Call_UpdateUsage b db df, map_option (Wrap ''update usage'') f)]"
  by (simp_all add: UpdateUsage_def Let_def split: option.splits)

lemma UpdateUsage_usage [simp]:
  "bucket_usage (snd (UpdateUsage None w b db df)) =
     (bucket_usage w)(b \<mapsto> (case bucket_usage w b of
         None \<Rightarrow> \<lparr>TotalBytes = db, FileCount = df\<rparr>
       | Some u \<Rightarrow> \<lparr>TotalBytes = max (TotalBytes u + db) 0, FileCount = max (FileCount u + df) 0\<rparr>))"
  "bucket_usage (snd (UpdateUsage (Some e) w b db df)) = bucket_usage w"
  by (simp_all add: UpdateUsage_def Let_def split: option.splits)

lemma RecordUsageSnapshot_frame [simp]:
  "fst (RecordUsageSnapshot f w ownerID) = map_option (Wrap ''record usage snapshot'') f"
  "buckets (snd (RecordUsageSnapshot f w ownerID)) = buckets w"
  "files (snd (RecordUsageSnapshot f w ownerID)) = files w"
  "bucket_usage (snd (RecordUsageSnapshot f w ownerID)) = bucket_usage w"
  "presigned_records (snd (RecordUsageSnapshot f w ownerID)) = presigned_records w"
  "presigned_audit (snd (RecordUsageSnapshot f w ownerID)) = presigned_audit w"
  "objects (snd (RecordUsageSnapshot f w ownerID)) = objects w"
  "trace (snd (RecordUsageSnapshot f w ownerID)) =
     trace w @ [(Call_RecordUsageSnapshot ownerID, map_option (Wrap ''record usage snapshot'') f)]"
  by (simp_all add: RecordUsageSnapshot_def Let_def split: option.splits)

lemma RecordUsageSnapshot_rows [simp]:
  "usage_snapshots (snd (RecordUsageSnapshot f w ownerID)) =
     (case f of
        Some _ \<Rightarrow> usage_snapshots w
      | None \<Rightarrow>
          usage_snapshots w @
          [(ownerID,
            sum_list (map (\<lambda>b. TotalBytes (usage_of w (Bucket_ID b)))
                        (filter (\<lambda>b. OwnerID b = ownerID) (buckets w))),
            sum_list (map (\<lambda>b. FileCount (usage_of w (Bucket_ID b)))
                        (filter (\<lambda>b. OwnerID b = ownerID) (buckets w))))])"
  by (simp add: RecordUsageSnapshot_def Let_def split: option.splits)

lemma usage_of_RecordUsageSnapshot [simp]:
  "usage_of (snd (RecordUsageSnapshot f w ownerID)) = usage_of w"
  by (rule ext) (simp add: usage_of_def)

lemma file_Delete_fst:
  "fst (file_Delete f w ownerID b fileID) =
     (case f of
        Some err \<Rightarrow> Inl (Wrap ''delete file metadata'' err)
      | None \<Rightarrow>
          (case find (file_row_matches w ownerID b fileID) (files w) of
             None \<Rightarrow> Inl ErrFileNotFound
           | Some meta \<Rightarrow> Inr meta))"
  by (simp add: file_Delete_def Let_def split: option.splits)

lemma file_Delete_frame [simp]:
  "buckets (snd (file_Delete f w ownerID b fileID)) = buckets w"
  "files (snd (file_Delete f w ownerID b fileID)) =
     (case fst (file_Delete f w ownerID b fileID) of
        Inl _ \<Rightarrow> files w
      | Inr _ \<Rightarrow> filter (\<lambda>m. \<not> file_row_matches w ownerID b fileID m) (files w))"
  "bucket_usage (snd (file_Delete f w ownerID b fileID)) = bucket_usage w"
  "usage_snapshots (snd (file_Delete f w ownerID b fileID)) = usage_snapshots w"
  "presigned_records (snd (file_Delete f w ownerID b fileID)) = presigned_records w"
  "presigned_audit (snd (file_Delete f w ownerID b fileID)) = presigned_audit w"
  "objects (snd (file_Delete f w ownerID b fileID)) = objects w"
  "trace (snd (file_Delete f w ownerID b fileID)) =
     trace w @ [(Call_FileDelete ownerID b fileID, outcome_of (fst (file_Delete f w ownerID b fileID)))]"
  by (simp_all add: file_Delete_def Let_def split: option.splits)

lemma find_matching_row:
  "find (file_row_matches w ownerID b fileID) (files w) = Some meta \<Longrightarrow>
     meta \<in> set (files w) \<and> ID meta = fileID \<and> BucketID meta = b \<and>
     file_row_matches w ownerID b fileID meta"
  by (auto simp: find_Some_iff file_row_matches_def)


lemmas Delete_unfold = Delete_def Let_def case_prod_beta file_Delete_fst calls_since_def

lemma ListObjectsForBucket_frame [simp]:
  "buckets (snd (ListObjectsForBucket f w b)) = buckets w"
  "files (snd (ListObjectsForBucket f w b)) = files w"
  "bucket_usage (snd (ListObjectsForBucket f w b)) = bucket_usage w"
  "objects (snd (ListObjectsForBucket f w b)) = objects w"
  "trace (snd (ListObjectsForBucket f w b)) =
     trace w @ [(Call_ListObjectsForBucket b, outcome_of (fst (ListObjectsForBucket f w b)))]"
  by (simp_all add: ListObjectsForBucket_def Let_def split: option.splits)

lemma bucket_Delete_trace [simp]:
  "trace (snd (bucket_Delete f w ownerID b)) =
     trace w @ [(Call_BucketDelete ownerID b, fst (bucket_Delete f w ownerID b))]"
  by (simp add: bucket_Delete_def Let_def split: option.splits)

lemma removeObjects_frame [simp]:
  "buckets (snd (removeObjects rm bucketName w objs)) = buckets w"
  "files (snd (removeObjects rm bucketName w objs)) = files w"
  "bucket_usage (snd (removeObjects rm bucketName w objs)) = bucket_usage w"
  by (induction objs arbitrary: w; simp add: case_prod_beta split: option.splits)+

lemma removeObjects_calls:
  "\<exists>cs. trace (snd (removeObjects rm bucketName w objs)) = trace w @ cs \<and>
     (\<forall>c err. (c, Some err) \<in> set cs \<longrightarrow>
        (\<exists>name. c = Call_RemoveObject bucketName name \<and>
           fst (removeObjects rm bucketName w objs) = Some (Wrap (''remove object '' @ name) err)) \<and>
        last cs = (c, Some err))"
proof (induction objs arbitrary: w)
  case Nil
  then show ?case by simp
next
  case (Cons obj rest)
  let ?name = "FO_ObjectName obj"
  show ?case
  proof (cases "rm ?name")
    case (Some e)
    then have "trace (snd (removeObjects rm bucketName w (obj # rest))) =
                 trace w @ [(Call_RemoveObject bucketName ?name, Some e)]"
      and "fst (removeObjects rm bucketName w (obj # rest)) =
             Some (Wrap (''remove object '' @ ?name) e)"
      by (simp_all add: case_prod_beta)
    then show ?thesis by auto
  next
    case None
    let ?w1 = "snd (RemoveObject None w bucketName ?name)"
    from Cons.IH [of ?w1] obtain cs where
      cs: "trace (snd (removeObjects rm bucketName ?w1 rest)) = trace ?w1 @ cs"
      and failed: "\<And>c err. (c, Some err) \<in> set cs \<Longrightarrow>
             (\<exists>name. c = Call_RemoveObject bucketName name \<and>
                fst (removeObjects rm bucketName ?w1 rest) =
                  Some (Wrap (''remove object '' @ name) err)) \<and>
             last cs = (c, Some err)"
      by blast
    have step: "removeObjects rm bucketName w (obj # rest) = removeObjects rm bucketName ?w1 rest"
      using None by (simp add: case_prod_beta)
    have "trace (snd (removeObjects rm bucketName w (obj # rest))) =
            trace w @ (Call_RemoveObject bucketName ?name, None) # cs"
      unfolding step using cs by simp
    moreover have "\<forall>c err. (c, Some err) \<in> set ((Call_RemoveObject bucketName ?name, None) # cs) \<longrightarrow>
        (\<exists>name. c = Call_RemoveObject bucketName name \<and>
           fst (removeObjects rm bucketName w (obj # rest)) =
             Some (Wrap (''remove object '' @ name) err)) \<and>
        last ((Call_RemoveObject bucketName ?name, None) # cs) = (c, Some err)"
      unfolding step using failed by auto
    ultimately show ?thesis by blast
  qed
qed

lemma deleteObjects_frame [simp]:
  "buckets (snd (deleteObjects s env w b)) = buckets w"
  "files (snd (deleteObjects s env w b)) = files w"
  "bucket_usage (snd (deleteObjects s env w b)) = bucket_usage w"
  by (simp_all add: deleteObjects_def case_prod_beta split: sum.splits)

lemma deleteObjects_calls:
  "\<exists>cs. trace (snd (deleteObjects s env w b)) = trace w @ cs \<and>
     (\<forall>bucketName name err. (Call_RemoveObject bucketName name, Some err) \<in> set cs \<longrightarrow>
        fst (deleteObjects s env w b) = Some (Wrap (''remove object '' @ name) err) \<and>
        last cs = (Call_RemoveObject bucketName name, Some err))"
proof (cases "bs_objectStore_nil s \<or> bs_files_nil s")
  case True
  then show ?thesis by (simp add: deleteObjects_def)
next
  case False
  show ?thesis
  proof (cases "fst (ListObjectsForBucket (dbe_list env) w b)")
    case (Inl err)
    with False have "trace (snd (deleteObjects s env w b)) =
        trace w @ [(Call_ListObjectsForBucket b, Some err)]"
      by (simp add: deleteObjects_def case_prod_beta)
    then show ?thesis by auto
  next
    case (Inr objs)
    let ?w1 = "snd (ListObjectsForBucket (dbe_list env) w b)"
    have eq: "deleteObjects s env w b = removeObjects (dbe_remove env) (bs_objectBucket s) ?w1 objs"
      using False Inr by (simp add: deleteObjects_def case_prod_beta)
    from removeObjects_calls [of "dbe_remove env" "bs_objectBucket s" ?w1 objs]
    obtain cs where
      cs: "trace (snd (removeObjects (dbe_remove env) (bs_objectBucket s) ?w1 objs)) = trace ?w1 @ cs"
      and failed: "\<And>c err. (c, Some err) \<in> set cs \<Longrightarrow>
             (\<exists>name. c = Call_RemoveObject (bs_objectBucket s) name \<and>
                fst (removeObjects (dbe_remove env) (bs_objectBucket s) ?w1 objs) =
                  Some (Wrap (''remove object '' @ name) err)) \<and>
             last cs = (c, Some err)"
      by blast
    have "trace (snd (deleteObjects s env w b)) =
            trace w @ (Call_ListObjectsForBucket b, None) # cs"
      using cs Inr by (simp add: eq)
    moreover have "\<forall>bucketName name err.
        (Call_RemoveObject bucketName name, Some err)
          \<in> set ((Call_ListObjectsForBucket b, None) # cs) \<longrightarrow>
        fst (deleteObjects s env w b) = Some (Wrap (''remove object '' @ name) err) \<and>
        last ((Call_ListObjectsForBucket b, None) # cs) = (Call_RemoveObject bucketName name, Some err)"
      using failed by (auto simp: eq)
    ultimately show ?thesis by blast
  qed
qed

lemmas Upload_unfold = Upload_def Let_def case_prod_beta file_Create_fst calls_since_def

lemmas ex_defs = ex_service_def NewService_def defaultMaxFileSize_def ex_bucket_def ex_world_def
  ex_header_def ex_upload_env_def ex_meta_def ex_world_one_file_def ex_delete_env_def
  ex_upload_env_zero_reported_def ex_upload_env_create_fails_def ex_upload_env_oversized_def
  ex_upload_env_oversized_removed_def ex_header_declared_large_def
  ex_upload_env_usage_fails_def ex_upload_env_snapshot_fails_def
  ex_delete_env_remove_fails_def ex_ops_def ex_meta2_def ex_world_two_files_def
  ex_bucket_service_def ex_delete_bucket_env_def ex_presigned_service_def ex_presign_env_def
  ex_presign_env_late_def ex_token_def ex_handler_env_def ex_request_get_def
  ex_request_delete_def ex_presign_env_record_fails_def ex_presign_env_audit_fails_def
  ex_record_def ex_audit_def

lemmas step_defs = bucket_Get_def bucket_Delete_def UpdateUsage_def RecordUsageSnapshot_def
  file_Create_def file_row_matches_def file_Delete_def ListObjectsForBucket_def PutObject_def
  RemoveObject_def record_call_def usage_of_def calls_since_def

lemmas upload_eval = Upload_def detectContentType_def sanitizeFilename_def TrimSpace_def
  leading_rune_def space_runes_def translateBucketError_def step_defs ex_defs Let_def

section \<open>Upload: size recorded in the metadata\<close>

text \<open>
  Claim C10, as amended: for every successful Upload, the \<open>SizeBytes\<close> of the returned
  metadata, which is also the row persisted, is the size the object store reported
  whenever that size is positive, for every declared size; when the store reports no
  positive size, it is the declared size.
\<close>

theorem Upload_size_recorded:
  assumes "Upload s env w ownerID bucketID (Some fh) = (Inr stored, w')"
      and "ue_put env = Inr n"
  shows "SizeBytes stored = (if 0 < n then n else Size fh) \<and> stored \<in> set (files w')"
  using assms
  by (auto simp: Upload_unfold split: option.splits sum.splits if_splits)

text \<open>The upload of the 11 bytes of notes.txt, for which the store reports 11 bytes.\<close>

theorem Upload_size_recorded_witness:
  "fst (Upload ex_service ex_upload_env ex_world ''u1'' ''b1'' (Some ex_header)) = Inr ex_meta \<and>
   ue_put ex_upload_env = Inr 11 \<and>
   SizeBytes ex_meta = 11 \<and>
   ex_meta \<in> set (files (snd (Upload ex_service ex_upload_env ex_world ''u1'' ''b1''
                                 (Some ex_header))))"
proof -
  have res: "fst (Upload ex_service ex_upload_env ex_world ''u1'' ''b1'' (Some ex_header))
               = Inr ex_meta"
    by (simp add: upload_eval)
  have run: "Upload ex_service ex_upload_env ex_world ''u1'' ''b1'' (Some ex_header) =
               (Inr ex_meta,
                snd (Upload ex_service ex_upload_env ex_world ''u1'' ''b1'' (Some ex_header)))"
    using res by (simp add: prod_eq_iff)
  have put: "ue_put ex_upload_env = Inr 11"
    by (simp add: ex_upload_env_def)
  show ?thesis
    using Upload_size_recorded [OF run put] res put by simp
qed

text \<open>
  The claim as stated fails where the store reports size 0 for an upload declared as 11
  bytes: the upload succeeds and records 11 bytes.
\<close>

theorem Upload_size_counterexample:
  "ue_put ex_upload_env_zero_reported = Inr 0 \<and>
   Size ex_header = 11 \<and>
   fst (Upload ex_service ex_upload_env_zero_reported ex_world ''u1'' ''b1'' (Some ex_header))
     = Inr ex_meta \<and>
   SizeBytes ex_meta = 11"
  by (simp add: upload_eval)

section \<open>Upload: the object first, the metadata second\<close>

text \<open>
  Claim C3: in Upload the metadata row is created only after the write to the object
  store has succeeded: whenever the insert is attempted, the calls made so far are the
  bucket lookup, the successful \<open>PutObject\<close> and the insert, in this order, and the rows
  change only through a successful insert. If the insert fails with \<open>err\<close>, Upload
  returns \<open>err\<close>, no row has been added, and exactly one \<open>RemoveObject\<close> of the object
  just written follows the insert, whose own outcome (\<open>ue_remove env\<close>, success or
  failure) does not reach the caller.
\<close>

theorem Upload_metadata_after_object_write:
  assumes "Upload s env w ownerID bucketID fileHeader = (r, w')"
  shows "(\<forall>res. (Call_FileCreate (ue_new_uuid env), res) \<in> set (calls_since w w') \<longrightarrow>
            (\<forall>e. ue_put env \<noteq> Inl e) \<and>
            take 3 (calls_since w w') =
              [(Call_BucketGet ownerID bucketID, None),
               (Call_PutObject (objectBucket s) (bucketID @ ''/'' @ ue_new_uuid env), None),
               (Call_FileCreate (ue_new_uuid env), res)]) \<and>
         (files w' \<noteq> files w \<longrightarrow>
            (Call_FileCreate (ue_new_uuid env), None) \<in> set (calls_since w w')) \<and>
         (\<forall>err. (Call_FileCreate (ue_new_uuid env), Some err) \<in> set (calls_since w w') \<longrightarrow>
            r = Inl err \<and> files w' = files w \<and>
            calls_since w w' =
              [(Call_BucketGet ownerID bucketID, None),
               (Call_PutObject (objectBucket s) (bucketID @ ''/'' @ ue_new_uuid env), None),
               (Call_FileCreate (ue_new_uuid env), Some err),
               (Call_RemoveObject (objectBucket s) (bucketID @ ''/'' @ ue_new_uuid env),
                ue_remove env)])"
  using assms
  by (auto simp: Upload_unfold split: option.splits sum.splits if_splits)

text \<open>
  Two uploads of notes.txt: one where every call succeeds, one where the insert fails
  and the removal that follows fails as well.
\<close>

theorem Upload_metadata_after_object_write_witness:
  "take 3 (calls_since ex_world
             (snd (Upload ex_service ex_upload_env ex_world ''u1'' ''b1'' (Some ex_header)))) =
     [(Call_BucketGet ''u1'' ''b1'', None),
      (Call_PutObject ''godrive'' ''b1/f1'', None),
      (Call_FileCreate ''f1'', None)] \<and>
   files (snd (Upload ex_service ex_upload_env ex_world ''u1'' ''b1'' (Some ex_header)))
     \<noteq> files ex_world \<and>
   fst (Upload ex_service ex_upload_env_create_fails ex_world ''u1'' ''b1'' (Some ex_header)) =
     Inl (Wrap ''create file metadata'' (Backend ''connection reset'')) \<and>
   files (snd (Upload ex_service ex_upload_env_create_fails ex_world ''u1'' ''b1''
                 (Some ex_header))) = files ex_world \<and>
   calls_since ex_world
     (snd (Upload ex_service ex_upload_env_create_fails ex_world ''u1'' ''b1'' (Some ex_header))) =
     [(Call_BucketGet ''u1'' ''b1'', None),
      (Call_PutObject ''godrive'' ''b1/f1'', None),
      (Call_FileCreate ''f1'', Some (Wrap ''create file metadata'' (Backend ''connection reset''))),
      (Call_RemoveObject ''godrive'' ''b1/f1'', Some (Backend ''timeout''))]"
proof -
  let ?ok = "Upload ex_service ex_upload_env ex_world ''u1'' ''b1'' (Some ex_header)"
  let ?ko = "Upload ex_service ex_upload_env_create_fails ex_world ''u1'' ''b1'' (Some ex_header)"
  have created: "(Call_FileCreate (ue_new_uuid ex_upload_env), None)
                   \<in> set (calls_since ex_world (snd ?ok))"
    by (simp add: upload_eval)
  have changed: "files (snd ?ok) \<noteq> files ex_world"
    by (simp add: upload_eval)
  have rejected: "(Call_FileCreate (ue_new_uuid ex_upload_env_create_fails),
                   Some (Wrap ''create file metadata'' (Backend ''connection reset'')))
                   \<in> set (calls_since ex_world (snd ?ko))"
    by (simp add: upload_eval)
  have ids: "ue_new_uuid ex_upload_env = ''f1''" "ue_new_uuid ex_upload_env_create_fails = ''f1''"
    "ue_remove ex_upload_env_create_fails = Some (Backend ''timeout'')"
    "objectBucket ex_service = ''godrive''"
    by (simp_all add: ex_defs)
  have ok: "?ok = (fst ?ok, snd ?ok)" and ko: "?ko = (fst ?ko, snd ?ko)"
    by simp_all
  show ?thesis
    using Upload_metadata_after_object_write [OF ok] Upload_metadata_after_object_write [OF ko]
      created changed rejected
    by (simp add: ids)
qed

section \<open>Upload: the size limit\<close>

text \<open>
  Claim C4, as amended: let the bucket resolve for the owner. An upload whose declared
  size exceeds the maximum is rejected with \<open>ErrFileTooLarge\<close> before any call to the
  object store. An upload whose declared size is within a positive maximum (the default
  is 100 MiB), whose file opens and whose store-reported size exceeds the maximum, is
  rejected with \<open>ErrFileTooLarge\<close> after exactly one attempt to remove the object just
  written, and no metadata row is created; the object is absent from the store
  afterwards when that removal succeeds.
\<close>

theorem Upload_too_large:
  assumes "Upload s env w ownerID bucketID (Some fh) = (r, w')"
      and "fst (bucket_Get (ue_bucket_get env) w ownerID bucketID) = Inr bk"
  shows "(maxFileSize s < Size fh \<longrightarrow>
            r = Inl ErrFileTooLarge \<and> files w' = files w \<and> objects w' = objects w \<and>
            calls_since w w' = [(Call_BucketGet ownerID bucketID, None)]) \<and>
         (Size fh \<le> maxFileSize s \<and> 0 < maxFileSize s \<and> ue_open env = None \<and>
          ue_put env = Inr n \<and> maxFileSize s < n \<longrightarrow>
            r = Inl ErrFileTooLarge \<and> files w' = files w \<and>
            calls_since w w' =
              [(Call_BucketGet ownerID bucketID, None),
               (Call_PutObject (objectBucket s) (bucketID @ ''/'' @ ue_new_uuid env), None),
               (Call_RemoveObject (objectBucket s) (bucketID @ ''/'' @ ue_new_uuid env),
                ue_remove env)] \<and>
            (ue_remove env = None \<longrightarrow>
               objects w' (objectBucket s, bucketID @ ''/'' @ ue_new_uuid env) = None))"
  using assms
  by (auto simp: Upload_unfold split: option.splits sum.splits if_splits)

text \<open>
  An upload declared as 100 MiB + 1 byte, and an upload declared as 11 bytes for which
  the store reports 100 MiB + 1 byte and the removal succeeds.
\<close>

theorem Upload_too_large_witness:
  "maxFileSize ex_service < Size ex_header_declared_large \<and>
   fst (Upload ex_service ex_upload_env ex_world ''u1'' ''b1'' (Some ex_header_declared_large))
     = Inl ErrFileTooLarge \<and>
   calls_since ex_world
     (snd (Upload ex_service ex_upload_env ex_world ''u1'' ''b1'' (Some ex_header_declared_large)))
     = [(Call_BucketGet ''u1'' ''b1'', None)] \<and>
   Size ex_header \<le> maxFileSize ex_service \<and>
   ue_put ex_upload_env_oversized_removed = Inr 104857601 \<and>
   maxFileSize ex_service < 104857601 \<and>
   fst (Upload ex_service ex_upload_env_oversized_removed ex_world ''u1'' ''b1'' (Some ex_header))
     = Inl ErrFileTooLarge \<and>
   objects (snd (Upload ex_service ex_upload_env_oversized_removed ex_world ''u1'' ''b1''
                   (Some ex_header))) (''godrive'', ''b1/f1'') = None"
proof -
  let ?big = "Upload ex_service ex_upload_env ex_world ''u1'' ''b1'' (Some ex_header_declared_large)"
  let ?lie = "Upload ex_service ex_upload_env_oversized_removed ex_world ''u1'' ''b1''
                (Some ex_header)"
  have big: "?big = (fst ?big, snd ?big)" and lie: "?lie = (fst ?lie, snd ?lie)"
    by simp_all
  have bucket: "fst (bucket_Get (ue_bucket_get ex_upload_env) ex_world ''u1'' ''b1'')
                  = Inr ex_bucket"
    "fst (bucket_Get (ue_bucket_get ex_upload_env_oversized_removed) ex_world ''u1'' ''b1'')
                  = Inr ex_bucket"
    by (simp_all add: step_defs ex_defs)
  have facts: "maxFileSize ex_service < Size ex_header_declared_large"
    "Size ex_header \<le> maxFileSize ex_service" "0 < maxFileSize ex_service"
    "ue_open ex_upload_env_oversized_removed = None"
    "ue_put ex_upload_env_oversized_removed = Inr 104857601"
    "maxFileSize ex_service < 104857601"
    "ue_remove ex_upload_env_oversized_removed = None"
    "ue_new_uuid ex_upload_env_oversized_removed = ''f1''"
    "objectBucket ex_service = ''godrive''"
    by (simp_all add: ex_defs)
  show ?thesis
    using Upload_too_large [OF big bucket(1)]
      Upload_too_large [OF lie bucket(2), of 104857601] facts
    by simp
qed

text \<open>
  The claim as stated fails where the removal of the oversized object fails: Upload
  returns \<open>ErrFileTooLarge\<close> and the object remains in the store.
\<close>

theorem Upload_too_large_counterexample:
  "Size ex_header \<le> maxFileSize ex_service \<and>
   ue_put ex_upload_env_oversized = Inr 104857601 \<and>
   maxFileSize ex_service < 104857601 \<and>
   fst (Upload ex_service ex_upload_env_oversized ex_world ''u1'' ''b1'' (Some ex_header))
     = Inl ErrFileTooLarge \<and>
   objects (snd (Upload ex_service ex_upload_env_oversized ex_world ''u1'' ''b1''
                   (Some ex_header))) (''godrive'', ''b1/f1'') = Some 104857601"
  by (simp add: upload_eval)

section \<open>Upload: after the metadata is persisted\<close>

text \<open>
  Claim C9, as amended: in Upload, once the metadata row is persisted, the row and the
  object stay in place whatever follows. A failure of the (+size, +1) usage update is
  returned to the caller, with the usage counters unchanged and nothing rolled back. When
  the usage update succeeds, Upload returns the stored metadata whether or not the
  recording of the usage snapshot that follows fails: the error of that step is discarded.
\<close>

theorem Upload_after_metadata_persisted:
  assumes "Upload s env w ownerID bucketID fileHeader = (r, w')"
      and "(Call_FileCreate (ue_new_uuid env), None) \<in> set (calls_since w w')"
  shows "\<exists>stored. files w' = files w @ [stored] \<and> ID stored = ue_new_uuid env \<and>
            objects w' (objectBucket s, ObjectName stored) \<noteq> None \<and>
            (\<forall>e. ue_usage env = Some e \<longrightarrow>
               r = Inl (Wrap ''update usage'' e) \<and> bucket_usage w' = bucket_usage w \<and>
               last (calls_since w w') =
                 (Call_UpdateUsage bucketID (SizeBytes stored) 1, Some (Wrap ''update usage'' e))) \<and>
            (ue_usage env = None \<longrightarrow>
               r = Inr stored \<and>
               last (calls_since w w') =
                 (Call_RecordUsageSnapshot ownerID,
                  map_option (Wrap ''record usage snapshot'') (ue_snapshot env)))"
  using assms
  by (auto simp: Upload_unfold split: option.splits sum.splits if_splits)

text \<open>
  Two uploads of notes.txt: one where the usage update fails, one where the recording of
  the snapshot fails.
\<close>

theorem Upload_after_metadata_persisted_witness:
  "fst (Upload ex_service ex_upload_env_usage_fails ex_world ''u1'' ''b1'' (Some ex_header))
     = Inl (Wrap ''update usage'' (Backend ''timeout'')) \<and>
   files (snd (Upload ex_service ex_upload_env_usage_fails ex_world ''u1'' ''b1''
                 (Some ex_header))) = [ex_meta] \<and>
   objects (snd (Upload ex_service ex_upload_env_usage_fails ex_world ''u1'' ''b1''
                   (Some ex_header))) (''godrive'', ''b1/f1'') = Some 11 \<and>
   fst (Upload ex_service ex_upload_env_snapshot_fails ex_world ''u1'' ''b1'' (Some ex_header))
     = Inr ex_meta"
proof -
  let ?u = "Upload ex_service ex_upload_env_usage_fails ex_world ''u1'' ''b1'' (Some ex_header)"
  let ?n = "Upload ex_service ex_upload_env_snapshot_fails ex_world ''u1'' ''b1'' (Some ex_header)"
  have u: "?u = (fst ?u, snd ?u)" and n: "?n = (fst ?n, snd ?n)"
    by simp_all
  have reached:
    "(Call_FileCreate (ue_new_uuid ex_upload_env_usage_fails), None)
       \<in> set (calls_since ex_world (snd ?u))"
    "(Call_FileCreate (ue_new_uuid ex_upload_env_snapshot_fails), None)
       \<in> set (calls_since ex_world (snd ?n))"
    by (simp_all add: upload_eval)
  have rows: "files (snd ?u) = [ex_meta]" "files (snd ?n) = [ex_meta]" "files ex_world = []"
    "objects (snd ?u) (''godrive'', ''b1/f1'') = Some 11"
    by (simp_all add: upload_eval)
  have faults: "ue_usage ex_upload_env_usage_fails = Some (Backend ''timeout'')"
    "ue_usage ex_upload_env_snapshot_fails = None"
    by (simp_all add: ex_defs)
  show ?thesis
    using Upload_after_metadata_persisted [OF u reached(1)]
      Upload_after_metadata_persisted [OF n reached(2)] rows faults
    by auto
qed

text \<open>
  The claim as stated fails where the recording of the usage snapshot fails: the failed
  call is on record, and Upload returns the stored metadata and no error.
\<close>

theorem Upload_snapshot_failure_counterexample:
  "ue_snapshot ex_upload_env_snapshot_fails = Some (Backend ''timeout'') \<and>
   last (trace (snd (Upload ex_service ex_upload_env_snapshot_fails ex_world ''u1'' ''b1''
                       (Some ex_header)))) =
     (Call_RecordUsageSnapshot ''u1'', Some (Wrap ''record usage snapshot'' (Backend ''timeout''))) \<and>
   fst (Upload ex_service ex_upload_env_snapshot_fails ex_world ''u1'' ''b1'' (Some ex_header))
     = Inr ex_meta"
  by (simp add: upload_eval)

section \<open>Delete: the metadata first, the object second\<close>



section \<open>Usage counters against the metadata rows\<close>

lemma sum_sizes_nonneg:
  "list_all (\<lambda>m. 0 \<le> SizeBytes m) fs \<Longrightarrow> 0 \<le> sum_list (map SizeBytes (filter P fs))"
  by (induction fs) auto

lemma filter_absent_row:
  "m \<notin> set fs \<Longrightarrow> filter (\<lambda>x. x \<noteq> m \<and> Q x) fs = filter Q fs"
  by (induction fs) auto

lemma sum_without_row:
  "distinct fs \<Longrightarrow> m \<in> set fs \<Longrightarrow> Q m \<Longrightarrow>
     sum_list (map (f :: 'a \<Rightarrow> int) (filter (\<lambda>x. x \<noteq> m \<and> Q x) fs)) + f m =
     sum_list (map f (filter Q fs))"
  by (induction fs) (auto simp: filter_absent_row)

lemma length_without_row:
  "distinct fs \<Longrightarrow> m \<in> set fs \<Longrightarrow> Q m \<Longrightarrow>
     Suc (length (filter (\<lambda>x. x \<noteq> m \<and> Q x) fs)) = length (filter Q fs)"
  by (induction fs) (auto simp: filter_absent_row)

lemma matching_row_unique:
  assumes "distinct (map ID (files w))"
      and "find (file_row_matches w ownerID b fileID) (files w) = Some meta"
  shows "filter (\<lambda>m. \<not> file_row_matches w ownerID b fileID m) (files w) =
         filter (\<lambda>m. m \<noteq> meta) (files w)"
proof (rule filter_cong [OF refl])
  fix m assume m: "m \<in> set (files w)"
  note row = find_matching_row [OF assms(2)]
  show "(\<not> file_row_matches w ownerID b fileID m) = (m \<noteq> meta)"
  proof (cases "m = meta")
    case True
    with row show ?thesis by simp
  next
    case False
    with m row assms(1) have "ID m \<noteq> fileID"
      by (metis distinct_map inj_onD)
    with False show ?thesis by (simp add: file_row_matches_def)
  qed
qed

lemma insert_row_consistent:
  assumes "usage_consistent w b"
      and "list_all (\<lambda>m. 0 \<le> SizeBytes m) (files w)"
      and "files w' = files w @ [m]"
      and "BucketID m = bid" and "SizeBytes m = sz" and "0 \<le> sz"
      and "bucket_usage w' = (bucket_usage w)(bid \<mapsto>
             (case bucket_usage w bid of
                None \<Rightarrow> \<lparr>TotalBytes = sz, FileCount = 1\<rparr>
              | Some u \<Rightarrow> \<lparr>TotalBytes = max (TotalBytes u + sz) 0,
                           FileCount = max (FileCount u + 1) 0\<rparr>))"
  shows "usage_consistent w' b"
proof (cases "b = bid")
  case False
  with assms show ?thesis
    by (simp add: usage_consistent_def usage_of_def bucket_files_def)
next
  case True
  have "0 \<le> sum_list (map SizeBytes (filter (\<lambda>x. BucketID x = b) (files w)))"
    using assms(2) by (rule sum_sizes_nonneg)
  with True assms show ?thesis
    by (auto simp: usage_consistent_def usage_of_def bucket_files_def split: option.splits)
qed

lemma delete_row_consistent:
  assumes "usage_consistent w b"
      and "distinct (map ID (files w))"
      and "list_all (\<lambda>m. 0 \<le> SizeBytes m) (files w)"
      and "find (file_row_matches w ownerID bucketID fileID) (files w) = Some meta"
      and "files w' = filter (\<lambda>m. \<not> file_row_matches w ownerID bucketID fileID m) (files w)"
      and "bucket_usage w' = (bucket_usage w)(bucketID \<mapsto>
             (case bucket_usage w bucketID of
                None \<Rightarrow> \<lparr>TotalBytes = - SizeBytes meta, FileCount = - 1\<rparr>
              | Some u \<Rightarrow> \<lparr>TotalBytes = max (TotalBytes u + - SizeBytes meta) 0,
                           FileCount = max (FileCount u + - 1) 0\<rparr>))"
  shows "usage_consistent w' b"
proof -
  note row = find_matching_row [OF assms(4)]
  have rows: "files w' = filter (\<lambda>m. m \<noteq> meta) (files w)"
    using assms(5) matching_row_unique [OF assms(2) assms(4)] by simp
  have dist: "distinct (files w)"
    using assms(2) by (simp add: distinct_map)
  show ?thesis
  proof (cases "b = bucketID")
    case False
    with row have "filter (\<lambda>x. BucketID x = b) (filter (\<lambda>m. m \<noteq> meta) (files w)) =
                   filter (\<lambda>x. BucketID x = b) (files w)"
      by (auto simp: filter_filter intro: filter_cong)
    with False assms(1,6) rows show ?thesis
      by (simp add: usage_consistent_def usage_of_def bucket_files_def)
  next
    case True
    let ?rest = "filter (\<lambda>x. x \<noteq> meta \<and> BucketID x = b) (files w)"
    have q: "BucketID meta = b" using row True by simp
    have m: "meta \<in> set (files w)" using row by simp
    have s: "sum_list (map SizeBytes ?rest) + SizeBytes meta =
             sum_list (map SizeBytes (filter (\<lambda>x. BucketID x = b) (files w)))"
      using dist m q by (rule sum_without_row)
    have l: "Suc (length ?rest) = length (filter (\<lambda>x. BucketID x = b) (files w))"
      using dist m q by (rule length_without_row)
    have nn: "0 \<le> sum_list (map SizeBytes ?rest)"
      using assms(3) by (rule sum_sizes_nonneg)
    have rest: "bucket_files w' b = ?rest"
      by (simp add: bucket_files_def rows)
    from assms(1) have c:
      "TotalBytes (usage_of w b) = sum_list (map SizeBytes (filter (\<lambda>x. BucketID x = b) (files w)))"
      "FileCount (usage_of w b) = int (length (filter (\<lambda>x. BucketID x = b) (files w)))"
      by (simp_all add: usage_consistent_def bucket_files_def)
    obtain u where u: "bucket_usage w b = Some u"
      using c(2) l by (cases "bucket_usage w b") (auto simp: usage_of_def)
    have new: "usage_of w' b = \<lparr>TotalBytes = max (TotalBytes u + - SizeBytes meta) 0,
                                 FileCount = max (FileCount u + - 1) 0\<rparr>"
      using assms(6) True u by (simp add: usage_of_def)
    have old: "TotalBytes u = sum_list (map SizeBytes ?rest) + SizeBytes meta"
      "FileCount u = int (Suc (length ?rest))"
      using c u s l by (simp_all add: usage_of_def)
    show ?thesis
      unfolding usage_consistent_def rest new using old nn by simp
  qed
qed

lemma Upload_failure_effect:
  assumes "Upload s env w ownerID bucketID fileHeader = (Inl e, w')" and "ue_usage env = None"
  shows "files w' = files w \<and> bucket_usage w' = bucket_usage w"
  using assms
  by (auto simp: Upload_unfold split: option.splits sum.splits if_splits)

lemma Upload_success_effect:
  assumes "Upload s env w ownerID bucketID fileHeader = (Inr stored, w')"
  shows "files w' = files w @ [stored] \<and>
         BucketID stored = bucketID \<and> ID stored \<notin> ID ` set (files w) \<and>
         (\<forall>fh. fileHeader = Some fh \<and> 0 \<le> Size fh \<longrightarrow> 0 \<le> SizeBytes stored) \<and>
         fileHeader \<noteq> None \<and>
         bucket_usage w' =
           (bucket_usage w)(bucketID \<mapsto>
             (case bucket_usage w bucketID of
                None \<Rightarrow> \<lparr>TotalBytes = SizeBytes stored, FileCount = 1\<rparr>
              | Some u \<Rightarrow> \<lparr>TotalBytes = max (TotalBytes u + SizeBytes stored) 0,
                           FileCount = max (FileCount u + 1) 0\<rparr>))"
  using assms
  by (auto simp: Upload_unfold list_ex_iff split: option.splits sum.splits if_splits)

lemma Upload_preserves:
  assumes "rows_wellformed w" and "usage_consistent w b"
      and "no_late_failure (Op_Upload env ownerID bucketID fileHeader)"
  shows "rows_wellformed (snd (Upload s env w ownerID bucketID fileHeader)) \<and>
         usage_consistent (snd (Upload s env w ownerID bucketID fileHeader)) b"
proof -
  obtain r w' where run: "Upload s env w ownerID bucketID fileHeader = (r, w')"
    by (cases "Upload s env w ownerID bucketID fileHeader")
  have "rows_wellformed w' \<and> usage_consistent w' b"
  proof (cases r)
    case (Inl e)
    from Upload_failure_effect [OF run [unfolded Inl]] assms show ?thesis
      by (simp add: rows_wellformed_def usage_consistent_def usage_of_def bucket_files_def)
  next
    case (Inr stored)
    note eff = Upload_success_effect [OF run [unfolded Inr]]
    from eff assms(3) have size: "0 \<le> SizeBytes stored"
      by (cases fileHeader) auto
    have wf: "rows_wellformed w'"
      using assms(1) eff size by (auto simp: rows_wellformed_def)
    have nonneg: "list_all (\<lambda>m. 0 \<le> SizeBytes m) (files w)"
      using assms(1) by (simp add: rows_wellformed_def)
    have "usage_consistent w' b"
      using assms(2) nonneg _ _ refl size
    proof (rule insert_row_consistent)
      show "files w' = files w @ [stored]" using eff by simp
      show "BucketID stored = bucketID" using eff by simp
      show "bucket_usage w' = (bucket_usage w)(bucketID \<mapsto>
               (case bucket_usage w bucketID of
                  None \<Rightarrow> \<lparr>TotalBytes = SizeBytes stored, FileCount = 1\<rparr>
                | Some u \<Rightarrow> \<lparr>TotalBytes = max (TotalBytes u + SizeBytes stored) 0,
                             FileCount = max (FileCount u + 1) 0\<rparr>))"
        using eff by simp
    qed
    with wf show ?thesis by simp
  qed
  with run show ?thesis by simp
qed

lemma Delete_preserves:
  assumes "rows_wellformed w" and "usage_consistent w b"
      and "no_late_failure (Op_Delete env ownerID bucketID fileID)"
  shows "rows_wellformed (snd (Delete s env w ownerID bucketID fileID)) \<and>
         usage_consistent (snd (Delete s env w ownerID bucketID fileID)) b"
proof -
  let ?w' = "snd (Delete s env w ownerID bucketID fileID)"
  show ?thesis
  proof (cases "fst (file_Delete (de_delete env) w ownerID bucketID fileID)")
    case (Inl err)
    then have "files ?w' = files w" "bucket_usage ?w' = bucket_usage w"
      by (simp_all add: Delete_def Let_def case_prod_beta)
    then show ?thesis
      using assms(1,2)
      by (simp add: rows_wellformed_def usage_consistent_def usage_of_def bucket_files_def)
  next
    case (Inr meta)
    then have found: "find (file_row_matches w ownerID bucketID fileID) (files w) = Some meta"
      by (auto simp: file_Delete_fst split: option.splits)
    have rows: "files ?w' = filter (\<lambda>m. \<not> file_row_matches w ownerID bucketID fileID m) (files w)"
      using Inr assms(3) by (simp add: Delete_def Let_def case_prod_beta)
    have usage: "bucket_usage ?w' = (bucket_usage w)(bucketID \<mapsto>
             (case bucket_usage w bucketID of
                None \<Rightarrow> \<lparr>TotalBytes = - SizeBytes meta, FileCount = - 1\<rparr>
              | Some u \<Rightarrow> \<lparr>TotalBytes = max (TotalBytes u + - SizeBytes meta) 0,
                           FileCount = max (FileCount u + - 1) 0\<rparr>))"
      using Inr assms(3) by (simp add: Delete_def Let_def case_prod_beta)
    have wf: "rows_wellformed ?w'"
      using assms(1) rows
      by (auto simp: rows_wellformed_def distinct_map_filter list_all_iff)
    have "usage_consistent ?w' b"
    proof (rule delete_row_consistent [OF assms(2) _ _ found rows usage])
      show "distinct (map ID (files w))" "list_all (\<lambda>m. 0 \<le> SizeBytes m) (files w)"
        using assms(1) by (simp_all add: rows_wellformed_def)
    qed
    with wf show ?thesis by simp
  qed
qed

lemma apply_op_preserves:
  assumes "rows_wellformed w" and "usage_consistent w b" and "no_late_failure op"
  shows "rows_wellformed (apply_op s w op) \<and> usage_consistent (apply_op s w op) b"
  using assms by (cases op) (simp_all only: apply_op.simps Upload_preserves Delete_preserves)

lemma run_ops_preserves:
  assumes "rows_wellformed w"
      and "usage_consistent w bucketID"
      and "\<forall>op \<in> set ops. no_late_failure op"
  shows "rows_wellformed (run_ops s w ops) \<and> usage_consistent (run_ops s w ops) bucketID"
proof -
  have "rows_wellformed (foldl (apply_op s) w ops) \<and>
        usage_consistent (foldl (apply_op s) w ops) bucketID"
    using assms
  proof (induction ops arbitrary: w)
    case Nil
    then show ?case by simp
  next
    case (Cons op ops)
    have "rows_wellformed (apply_op s w op) \<and> usage_consistent (apply_op s w op) bucketID"
      using Cons.prems by (simp add: apply_op_preserves)
    with Cons show ?case by simp
  qed
  then show ?thesis by (simp add: run_ops_def)
qed

lemma Upload_applies_delta:
  assumes "Upload s env w ownerID bucketID fileHeader = (Inr stored, w')"
  shows "take 4 (calls_since w w') =
           [(Call_BucketGet ownerID bucketID, None),
            (Call_PutObject (objectBucket s) (ObjectName stored), None),
            (Call_FileCreate (ID stored), None),
            (Call_UpdateUsage bucketID (SizeBytes stored) 1, None)]"
  using assms
  by (auto simp: Upload_unfold split: option.splits sum.splits if_splits)

lemma Delete_applies_delta:
  assumes "Delete s env w ownerID bucketID fileID = (None, w')"
  shows "case find (file_row_matches w ownerID bucketID fileID) (files w) of
           None \<Rightarrow> False
         | Some meta \<Rightarrow>
             take 3 (calls_since w w') =
               [(Call_FileDelete ownerID bucketID fileID, None),
                (Call_RemoveObject (objectBucket s) (ObjectName meta), None),
                (Call_UpdateUsage bucketID (- SizeBytes meta) (- 1), None)]"
  using assms
  by (auto simp: Delete_unfold split: option.splits sum.splits)

text \<open>
  Claim C1, as amended: for every bucket whose usage counters equal the sum of
  \<open>SizeBytes\<close> and the number of its live file-metadata rows to begin with (as they do
  for a new bucket), the same holds after any finite sequence of file uploads and file
  deletes in which no step that follows a metadata mutation fails, that is the removal
  of the object in a delete and the usage update in an upload or a delete. The rows have
  distinct ids and no negative size, and no upload declares a negative size. Every
  successful upload applies the deltas \<open>(+ size, + 1)\<close> and every successful delete the
  deltas \<open>(- size, - 1)\<close>, in a call of its own that follows the metadata mutation (and,
  in a delete, the removal of the object).
\<close>

theorem usage_consistent_after_ops:
  assumes "rows_wellformed w"
      and "usage_consistent w bucketID"
      and "\<forall>op \<in> set ops. no_late_failure op"
  shows "usage_consistent (run_ops s w ops) bucketID \<and>
         (\<forall>env w0 ownerID b fileHeader stored w1.
            Upload s env w0 ownerID b fileHeader = (Inr stored, w1) \<longrightarrow>
            take 4 (calls_since w0 w1) =
              [(Call_BucketGet ownerID b, None),
               (Call_PutObject (objectBucket s) (ObjectName stored), None),
               (Call_FileCreate (ID stored), None),
               (Call_UpdateUsage b (SizeBytes stored) 1, None)]) \<and>
         (\<forall>env w0 ownerID b fileID w1.
            Delete s env w0 ownerID b fileID = (None, w1) \<longrightarrow>
            (case find (file_row_matches w0 ownerID b fileID) (files w0) of
               None \<Rightarrow> False
             | Some meta \<Rightarrow>
                 take 3 (calls_since w0 w1) =
                   [(Call_FileDelete ownerID b fileID, None),
                    (Call_RemoveObject (objectBucket s) (ObjectName meta), None),
                    (Call_UpdateUsage b (- SizeBytes meta) (- 1), None)]))"
  using run_ops_preserves [OF assms] Upload_applies_delta Delete_applies_delta
  by blast

text \<open>
  The upload of notes.txt into the new bucket docs followed by its deletion: the
  counters go from (0, 0) to (11, 1) and back, by the deltas (11, 1) and (- 11, - 1).
\<close>

theorem usage_consistent_after_ops_witness:
  "rows_wellformed ex_world \<and> usage_consistent ex_world ''b1'' \<and>
   list_all no_late_failure ex_ops \<and>
   usage_consistent (run_ops ex_service ex_world ex_ops) ''b1'' \<and>
   usage_of (run_ops ex_service ex_world (take 1 ex_ops)) ''b1'' =
     \<lparr>TotalBytes = 11, FileCount = 1\<rparr> \<and>
   usage_of (run_ops ex_service ex_world ex_ops) ''b1'' = \<lparr>TotalBytes = 0, FileCount = 0\<rparr> \<and>
   fst (Upload ex_service ex_upload_env ex_world ''u1'' ''b1'' (Some ex_header)) = Inr ex_meta \<and>
   take 4 (calls_since ex_world
             (snd (Upload ex_service ex_upload_env ex_world ''u1'' ''b1'' (Some ex_header)))) =
     [(Call_BucketGet ''u1'' ''b1'', None),
      (Call_PutObject ''godrive'' ''b1/f1'', None),
      (Call_FileCreate ''f1'', None),
      (Call_UpdateUsage ''b1'' 11 1, None)] \<and>
   fst (Delete ex_service ex_delete_env ex_world_one_file ''u1'' ''b1'' ''f1'') = None \<and>
   take 3 (calls_since ex_world_one_file
             (snd (Delete ex_service ex_delete_env ex_world_one_file ''u1'' ''b1'' ''f1''))) =
     [(Call_FileDelete ''u1'' ''b1'' ''f1'', None),
      (Call_RemoveObject ''godrive'' ''b1/f1'', None),
      (Call_UpdateUsage ''b1'' (- 11) (- 1), None)]"
proof -
  let ?up = "Upload ex_service ex_upload_env ex_world ''u1'' ''b1'' (Some ex_header)"
  let ?del = "Delete ex_service ex_delete_env ex_world_one_file ''u1'' ''b1'' ''f1''"
  have wf: "rows_wellformed ex_world"
    by (simp add: rows_wellformed_def ex_defs)
  have start: "usage_consistent ex_world ''b1''"
    by (simp add: usage_consistent_def usage_of_def bucket_files_def ex_defs)
  have ops: "\<forall>op \<in> set ex_ops. no_late_failure op"
    by (simp add: ex_defs)
  have one: "usage_of (run_ops ex_service ex_world (take 1 ex_ops)) ''b1'' =
               \<lparr>TotalBytes = 11, FileCount = 1\<rparr>"
    by (simp add: run_ops_def upload_eval)
  have two: "usage_of (run_ops ex_service ex_world ex_ops) ''b1'' =
               \<lparr>TotalBytes = 0, FileCount = 0\<rparr>"
    by (simp add: run_ops_def Delete_def upload_eval)
  have up_res: "fst ?up = Inr ex_meta"
    by (simp add: upload_eval)
  then have up: "?up = (Inr ex_meta, snd ?up)"
    by (simp add: prod_eq_iff)
  have del_res: "fst ?del = None"
    by (simp add: Delete_def step_defs ex_defs Let_def)
  then have del: "?del = (None, snd ?del)"
    by (simp add: prod_eq_iff)
  have found:
    "find (file_row_matches ex_world_one_file ''u1'' ''b1'' ''f1'') (files ex_world_one_file)
       = Some ex_meta"
    by (simp add: ex_defs file_row_matches_def)
  have fields: "ID ex_meta = ''f1''" "ObjectName ex_meta = ''b1/f1''" "SizeBytes ex_meta = 11"
    "objectBucket ex_service = ''godrive''"
    by (simp_all add: ex_defs)
  note all = usage_consistent_after_ops [OF wf start ops, of ex_service]
  note invariant = all [THEN conjunct1]
  note upload = all [THEN conjunct2, THEN conjunct1, rule_format, OF up]
  note delete = all [THEN conjunct2, THEN conjunct2, rule_format, OF del]
  show ?thesis
    using invariant upload delete wf start ops one two up_res del_res
    by (simp add: list_all_iff found fields)
qed

text \<open>
  The claim as stated fails after a delete whose object removal fails: the metadata row
  of f1 is gone, and the counters of the bucket still say one file of 11 bytes.
\<close>

theorem usage_consistent_counterexample:
  "usage_consistent ex_world_one_file ''b1'' \<and>
   files (run_ops ex_service ex_world_one_file
            [Op_Delete ex_delete_env_remove_fails ''u1'' ''b1'' ''f1'']) = [] \<and>
   usage_of (run_ops ex_service ex_world_one_file
               [Op_Delete ex_delete_env_remove_fails ''u1'' ''b1'' ''f1'']) ''b1'' =
     \<lparr>TotalBytes = 11, FileCount = 1\<rparr> \<and>
   \<not> usage_consistent (run_ops ex_service ex_world_one_file
                         [Op_Delete ex_delete_env_remove_fails ''u1'' ''b1'' ''f1'']) ''b1''"
  by (simp add: run_ops_def Delete_def usage_consistent_def bucket_files_def step_defs ex_defs
        Let_def)

section \<open>DeleteBucket: a failed object removal leaves the metadata alone\<close>

text \<open>
  Claim C2: if, during DeleteBucket, the removal of an object from the object store
  fails, that call is the last one DeleteBucket makes, DeleteBucket returns its error
  (wrapped with the name of the object), and no metadata is deleted: the bucket rows,
  the file-metadata rows and the usage counters are as before.
\<close>

theorem DeleteBucket_removal_failure:
  assumes "DeleteBucket s env w ownerID bucketID = (r, w')"
      and "(Call_RemoveObject bucketName name, Some err) \<in> set (calls_since w w')"
  shows "r = Some (Wrap (''remove object '' @ name) err) \<and>
         last (calls_since w w') = (Call_RemoveObject bucketName name, Some err) \<and>
         buckets w' = buckets w \<and> files w' = files w \<and> bucket_usage w' = bucket_usage w"
proof (cases "fst (bucket_Get (dbe_get env) w ownerID bucketID)")
  case (Inl e)
  with assms show ?thesis
    by (auto simp: DeleteBucket_def case_prod_beta calls_since_def)
next
  case (Inr bk)
  let ?w1 = "snd (bucket_Get (dbe_get env) w ownerID bucketID)"
  let ?w2 = "snd (deleteObjects s env ?w1 bucketID)"
  from deleteObjects_calls [of s env ?w1 bucketID] obtain cs where
    cs: "trace ?w2 = trace ?w1 @ cs"
    and failed: "\<And>bucketName name err. (Call_RemoveObject bucketName name, Some err) \<in> set cs \<Longrightarrow>
           fst (deleteObjects s env ?w1 bucketID) = Some (Wrap (''remove object '' @ name) err) \<and>
           last cs = (Call_RemoveObject bucketName name, Some err)"
    by blast
  have tr2: "trace ?w2 = trace w @ (Call_BucketGet ownerID bucketID, None) # cs"
    using cs Inr by simp
  show ?thesis
  proof (cases "fst (deleteObjects s env ?w1 bucketID)")
    case (Some e)
    then have res: "r = Some e" "w' = ?w2"
      using assms(1) Inr by (auto simp: DeleteBucket_def case_prod_beta)
    have calls: "calls_since w w' = (Call_BucketGet ownerID bucketID, None) # cs"
      using tr2 res by (simp add: calls_since_def)
    with assms(2) have mem: "(Call_RemoveObject bucketName name, Some err) \<in> set cs"
      by simp
    from failed [OF mem] Some mem res calls show ?thesis
      by auto
  next
    case None
    have "(Call_RemoveObject bucketName name, Some err) \<notin> set cs"
      using failed None by fastforce
    moreover have "set (calls_since w w') \<subseteq>
        set cs \<union> {(Call_BucketGet ownerID bucketID, None)} \<union>
        {(Call_BucketDelete ownerID bucketID, x) | x. True} \<union>
        {(Call_RecordUsageSnapshot ownerID, x) | x. True}"
      using assms(1) Inr None tr2
      by (auto simp: DeleteBucket_def case_prod_beta calls_since_def split: option.splits)
    ultimately show ?thesis
      using assms(2) by auto
  qed
qed

text \<open>
  The deletion of the bucket docs with its two files, where the object store removes
  the first object and refuses to remove the second.
\<close>

theorem DeleteBucket_removal_failure_witness:
  "calls_since ex_world_two_files
     (snd (DeleteBucket ex_bucket_service ex_delete_bucket_env ex_world_two_files ''u1'' ''b1'')) =
     [(Call_BucketGet ''u1'' ''b1'', None),
      (Call_ListObjectsForBucket ''b1'', None),
      (Call_RemoveObject ''godrive'' ''b1/f1'', None),
      (Call_RemoveObject ''godrive'' ''b1/f2'', Some (Backend ''timeout''))] \<and>
   fst (DeleteBucket ex_bucket_service ex_delete_bucket_env ex_world_two_files ''u1'' ''b1'') =
     Some (Wrap ''remove object b1/f2'' (Backend ''timeout'')) \<and>
   buckets (snd (DeleteBucket ex_bucket_service ex_delete_bucket_env ex_world_two_files
                   ''u1'' ''b1'')) = [ex_bucket] \<and>
   files (snd (DeleteBucket ex_bucket_service ex_delete_bucket_env ex_world_two_files
                 ''u1'' ''b1'')) = [ex_meta, ex_meta2] \<and>
   bucket_usage (snd (DeleteBucket ex_bucket_service ex_delete_bucket_env ex_world_two_files
                        ''u1'' ''b1'')) ''b1'' = Some \<lparr>TotalBytes = 16, FileCount = 2\<rparr>"
proof -
  let ?run = "DeleteBucket ex_bucket_service ex_delete_bucket_env ex_world_two_files ''u1'' ''b1''"
  have run: "?run = (fst ?run, snd ?run)"
    by simp
  have calls: "calls_since ex_world_two_files (snd ?run) =
     [(Call_BucketGet ''u1'' ''b1'', None),
      (Call_ListObjectsForBucket ''b1'', None),
      (Call_RemoveObject ''godrive'' ''b1/f1'', None),
      (Call_RemoveObject ''godrive'' ''b1/f2'', Some (Backend ''timeout''))]"
    by (simp add: DeleteBucket_def deleteObjects_def step_defs ex_defs Let_def)
  then have refused: "(Call_RemoveObject ''godrive'' ''b1/f2'', Some (Backend ''timeout''))
                        \<in> set (calls_since ex_world_two_files (snd ?run))"
    by simp
  have before: "buckets ex_world_two_files = [ex_bucket]"
    "files ex_world_two_files = [ex_meta, ex_meta2]"
    "bucket_usage ex_world_two_files ''b1'' = Some \<lparr>TotalBytes = 16, FileCount = 2\<rparr>"
    by (simp_all add: ex_defs)
  show ?thesis
    using DeleteBucket_removal_failure [OF run refused] calls before by simp
qed

section \<open>Presigned URLs: scope tokens\<close>

lemmas presign_defs = PresignedGetObject_def PresignedPutObject_def SaveRecord_def SaveAudit_def
  GenerateGetURL_def GeneratePutURL_def ValidateOwnership_def record_call_def Let_def

text \<open>
  Claim C8: the validation of a scope token succeeds exactly when the token is not
  expired (the clock is not after \<open>ExpiresAt\<close>), its bucket is the bucket name, its
  object is the object name, and the requested direction is within the capability it
  grants (\<open>CanWrite\<close> for a write, \<open>CanRead\<close> for a read). So an expired token fails
  even if everything else matches, and a token that grants only read fails for a write.
  When a token is presented and its validation fails,
  \<open>GeneratePresignedWithAccessCheck\<close> returns the access-denied error without calling
  the object store, so no URL is minted; when it returns a URL, the token is valid.
\<close>

theorem ValidateScope_decides:
  "(ValidateScope (pe_now env) token bucket object write \<longleftrightarrow>
      \<not> ExpiresAt token < pe_now env \<and> Token_Bucket token = bucket \<and>
      Token_Object token = object \<and> (if write then CanWrite token else CanRead token)) \<and>
   (ExpiresAt token < pe_now env \<longrightarrow> \<not> ValidateScope (pe_now env) token bucket object write) \<and>
   (write \<and> \<not> CanWrite token \<longrightarrow> \<not> ValidateScope (pe_now env) token bucket object write) \<and>
   (\<not> ValidateScope (pe_now env) token bucket object write \<longrightarrow>
      GeneratePresignedWithAccessCheck env w bucket object userID ownerID (Some token) write =
        (Inl (Errorf ''access denied: invalid scope token''), w)) \<and>
   (\<forall>url. fst (GeneratePresignedWithAccessCheck env w bucket object userID ownerID
                  (Some token) write) = Inr url \<longrightarrow>
      ValidateScope (pe_now env) token bucket object write)"
  by (auto simp: ValidateScope_def GeneratePresignedWithAccessCheck_def)

text \<open>
  The read-only token of bucket docs and object b1/f1, good until 100: it is accepted
  for a read at time 50, when the owner obtains a URL; it is rejected for a read at time
  101 and for a write at time 50, with no call to the object store.
\<close>

theorem ValidateScope_decides_witness:
  "ValidateScope (pe_now ex_presign_env) ex_token ''docs'' ''b1/f1'' False \<and>
   fst (GeneratePresignedWithAccessCheck ex_presign_env ex_world_one_file ''docs'' ''b1/f1''
          ''u1'' ''u1'' (Some ex_token) False) =
     Inr ''https://minio.local/docs/b1/f1?X-Amz-Signature=4f1c'' \<and>
   ExpiresAt ex_token < pe_now ex_presign_env_late \<and>
   \<not> ValidateScope (pe_now ex_presign_env_late) ex_token ''docs'' ''b1/f1'' False \<and>
   GeneratePresignedWithAccessCheck ex_presign_env_late ex_world_one_file ''docs'' ''b1/f1''
     ''u1'' ''u1'' (Some ex_token) False =
     (Inl (Errorf ''access denied: invalid scope token''), ex_world_one_file) \<and>
   \<not> CanWrite ex_token \<and>
   \<not> ValidateScope (pe_now ex_presign_env) ex_token ''docs'' ''b1/f1'' True \<and>
   GeneratePresignedWithAccessCheck ex_presign_env ex_world_one_file ''docs'' ''b1/f1''
     ''u1'' ''u1'' (Some ex_token) True =
     (Inl (Errorf ''access denied: invalid scope token''), ex_world_one_file)"
proof -
  have facts: "ExpiresAt ex_token < pe_now ex_presign_env_late" "\<not> CanWrite ex_token"
    "\<not> ExpiresAt ex_token < pe_now ex_presign_env" "Token_Bucket ex_token = ''docs''"
    "Token_Object ex_token = ''b1/f1''" "CanRead ex_token"
    by (simp_all add: ex_defs)
  have url: "fst (GeneratePresignedWithAccessCheck ex_presign_env ex_world_one_file ''docs''
                    ''b1/f1'' ''u1'' ''u1'' (Some ex_token) False) =
               Inr ''https://minio.local/docs/b1/f1?X-Amz-Signature=4f1c''"
    by (simp add: GeneratePresignedWithAccessCheck_def ValidateScope_def presign_defs ex_defs)
  show ?thesis
    using ValidateScope_decides [of ex_presign_env ex_token "''docs''" "''b1/f1''" False
            ex_world_one_file "''u1''" "''u1''"]
      ValidateScope_decides [of ex_presign_env_late ex_token "''docs''" "''b1/f1''" False
            ex_world_one_file "''u1''" "''u1''"]
      ValidateScope_decides [of ex_presign_env ex_token "''docs''" "''b1/f1''" True
            ex_world_one_file "''u1''" "''u1''"]
      facts url
    by simp
qed

section \<open>Presigned URLs: issuance record, audit record and method\<close>


lemma GenerateURL_invalid_method:
  assumes "method \<noteq> ''GET''" and "method \<noteq> ''PUT''"
  shows "GenerateURL s env w bucketName objectName method userID bucketID fileID =
           (Inl ErrInvalidMethod, w)"
  using assms by (simp add: GenerateURL_def)


lemma find_SomeD: "find P xs = Some x \<Longrightarrow> x \<in> set xs \<and> P x"
  by (auto simp: find_Some_iff)

lemma handler_unset_user:
  assumes "GeneratePresignedURL s env w req = (resp, w')"
      and "req_userID req = ''''"
      and "\<forall>b \<in> set (buckets w). OwnerID b \<noteq> ''''"
  shows "w' = w \<and>
         resp \<in> {(400, ErrorBody ''invalid ttl''), (400, ErrorBody ''invalid bucketID''),
                 (400, ErrorBody ''invalid fileID''), (404, ErrorBody ''bucket not found''),
                 (404, ErrorBody ''file not found''), (403, ErrorBody ''no access to bucket'')}"
proof -
  have owner: "OwnerID b \<noteq> ''''"
    if "GetBucketByID (he_bucket env) w bucketUUID = Inr b" for b bucketUUID
    using that assms(3)
    by (auto simp: GetBucketByID_def split: option.splits dest!: find_SomeD)
  show ?thesis
    using assms(1,2) owner
    by (auto simp: GeneratePresignedURL_def Let_def split: option.splits sum.splits)
qed

lemmas handler_eval = GeneratePresignedURL_def GetBucketByID_def GetFileByID_def
  GeneratePresignedWithAccessCheck_def presign_defs ex_defs




text \<open>
  Claim C7, as amended: for every method other than GET and PUT, \<open>GenerateURL\<close> fails
  with \<open>ErrInvalidMethod\<close> before any call, so that no URL is minted and nothing is
  written. On the path of the HTTP handler, for the empty user id that the handler reads
  and with no bucket owned by the empty id, every request, whatever its method, is
  rejected before any URL is minted, by the parsing of its parameters (400), by the
  lookup of bucket and file (404) or by the ownership gate (403); the error is then that
  of the gate, not \<open>ErrInvalidMethod\<close>.
\<close>

theorem invalid_method_rejected:
  "(method \<noteq> ''GET'' \<and> method \<noteq> ''PUT'' \<longrightarrow>
      GenerateURL s env w bucketName objectName method userID bucketID fileID =
        (Inl ErrInvalidMethod, w)) \<and>
   (req_userID req = '''' \<and> (\<forall>b \<in> set (buckets w1). OwnerID b \<noteq> '''') \<longrightarrow>
      snd (GeneratePresignedURL s henv w1 req) = w1 \<and>
      fst (GeneratePresignedURL s henv w1 req) \<in>
        {(400, ErrorBody ''invalid ttl''), (400, ErrorBody ''invalid bucketID''),
         (400, ErrorBody ''invalid fileID''), (404, ErrorBody ''bucket not found''),
         (404, ErrorBody ''file not found''), (403, ErrorBody ''no access to bucket'')})"
proof (intro conjI impI)
  assume "method \<noteq> ''GET'' \<and> method \<noteq> ''PUT''"
  then show "GenerateURL s env w bucketName objectName method userID bucketID fileID =
               (Inl ErrInvalidMethod, w)"
    by (simp add: GenerateURL_invalid_method)
next
  assume unset: "req_userID req = '''' \<and> (\<forall>b \<in> set (buckets w1). OwnerID b \<noteq> '''')"
  have run: "GeneratePresignedURL s henv w1 req =
               (fst (GeneratePresignedURL s henv w1 req), snd (GeneratePresignedURL s henv w1 req))"
    by simp
  from handler_unset_user [OF run] unset
  show "snd (GeneratePresignedURL s henv w1 req) = w1"
    "fst (GeneratePresignedURL s henv w1 req) \<in>
        {(400, ErrorBody ''invalid ttl''), (400, ErrorBody ''invalid bucketID''),
         (400, ErrorBody ''invalid fileID''), (404, ErrorBody ''bucket not found''),
         (404, ErrorBody ''file not found''), (403, ErrorBody ''no access to bucket'')}"
    by blast+
qed

text \<open>
  \<open>GenerateURL\<close> asked for a DELETE URL, and the request with \<open>method=DELETE\<close> that
  reaches the handler with no user id.
\<close>

theorem invalid_method_rejected_witness:
  "GenerateURL ex_presigned_service ex_presign_env ex_world_one_file ''docs'' ''b1/f1''
     ''DELETE'' ''u1'' ''b1'' ''f1'' = (Inl ErrInvalidMethod, ex_world_one_file) \<and>
   snd (GeneratePresignedURL ex_presigned_service ex_handler_env ex_world_one_file
          ex_request_delete) = ex_world_one_file \<and>
   fst (GeneratePresignedURL ex_presigned_service ex_handler_env ex_world_one_file
          ex_request_delete) = (403, ErrorBody ''no access to bucket'')"
proof -
  have other: "''DELETE'' \<noteq> ''GET'' \<and> ''DELETE'' \<noteq> ''PUT''"
    by simp
  have unset: "req_userID ex_request_delete = '''' \<and>
               (\<forall>b \<in> set (buckets ex_world_one_file). OwnerID b \<noteq> '''')"
    by (simp add: ex_defs)
  have answer: "fst (GeneratePresignedURL ex_presigned_service ex_handler_env ex_world_one_file
                       ex_request_delete) = (403, ErrorBody ''no access to bucket'')"
    by (simp add: handler_eval)
  note all = invalid_method_rejected
    [of "''DELETE''" ex_presigned_service ex_presign_env ex_world_one_file "''docs''" "''b1/f1''"
        "''u1''" "''b1''" "''f1''" ex_request_delete ex_world_one_file ex_handler_env]
  show ?thesis
    using all [THEN conjunct1, THEN mp, OF other] all [THEN conjunct2, THEN mp, OF unset] answer
    by simp
qed

text \<open>
  The claim as stated fails on the path of the handler: the request with
  \<open>method=DELETE\<close> is answered 403 "no access to bucket", which is not the error
  \<open>ErrInvalidMethod\<close>.
\<close>

theorem handler_delete_not_invalid_method:
  "req_method ex_request_delete = Some ''DELETE'' \<and>
   GeneratePresignedURL ex_presigned_service ex_handler_env ex_world_one_file ex_request_delete =
     ((403, ErrorBody ''no access to bucket''), ex_world_one_file) \<and>
   error_string ErrInvalidMethod \<noteq> ''no access to bucket''"
  by (simp add: handler_eval)

end
